theory Spec2Isabelle
  imports Main "HOL-Library.Word"
begin

text \<open>
  A model of the GLIN Python SDK: the three contract wrappers (escrow, registry,
  arbitration), the \<open>GlinContracts\<close> client that bundles them, and the \<open>GlinClient\<close> chain
  client, over the parts of the substrate-interface library and of Python they use.
  Each method is a function from the object it is called on (and its arguments) to its
  result and the updated object; each exception it may raise or catch is a value.
\<close>

section \<open>Python values, exceptions and conversions\<close>

text \<open>
  The SDK is Python. Exceptions are values: \<open>exn\<close> stands for the exceptions deriving from
  \<open>Exception\<close>, which is what every \<open>except Exception\<close> of the SDK catches.
  \<open>KeyError k\<close> is a failed subscript with key \<open>k\<close>, \<open>TypeError\<close> a subscript or conversion of
  a value of the wrong type, \<open>AttributeError\<close> a method call on \<open>None\<close>, \<open>ValueError s\<close>
  the rejection of the literal \<open>s\<close> by \<open>int()\<close>, and
  \<open>LibraryError m\<close> any exception raised inside the substrate-interface library (a transport
  failure, a refused extrinsic, ...), with its description.

  An error description of a \<open>ContractResult\<close> is either a string literal of the source
  (\<open>Msg\<close>) or \<open>str(e)\<close> of a caught exception (\<open>StrOf e\<close>); the text Python renders for an
  exception is not computed here.
\<close>

datatype exn = KeyError string | TypeError | AttributeError | ValueError string | LibraryError string

datatype errmsg = Msg string | StrOf exn

type_synonym bytes = "8 word list"

text \<open>Scalar Python values, as the fields of a decoded storage row and as call arguments.\<close>

datatype scalar = PyNone | PyBool bool | PyInt int | PyStr string

datatype pyarg = Scalar scalar | PyList "scalar list"

text \<open>
  Truthiness, as \<open>not x\<close> and \<open>x or d\<close> use it: \<open>None\<close> and the empty string are false,
  an object without \<open>__bool__\<close> and \<open>__len__\<close> (a Keypair, a SubstrateInterface, a dataclass
  instance) is true, the integer 0 is false.
\<close>

definition truthy_str :: "string option \<Rightarrow> bool" where
  "truthy_str a = (case a of None \<Rightarrow> False | Some s \<Rightarrow> s \<noteq> [])"

definition truthy_obj :: "'a option \<Rightarrow> bool" where
  "truthy_obj k = (case k of None \<Rightarrow> False | Some _ \<Rightarrow> True)"

definition py_or :: "int option \<Rightarrow> int \<Rightarrow> int" where
  "py_or g d = (case g of None \<Rightarrow> d | Some n \<Rightarrow> if n = 0 then d else n)"

subsection \<open>\<open>int(s)\<close> and \<open>str(n)\<close>\<close>

text \<open>
  \<open>int(s)\<close> on an ASCII string: whitespace is stripped at both ends, then an optional sign,
  then decimal digits, where single underscores may stand between two digits. Anything
  else raises ValueError. \<open>str(n)\<close> of an integer is its decimal rendering, with a minus sign
  for a negative number. Python's integers are unbounded, so both are over \<open>int\<close>; the
  interpreter's configurable cap on the number of digits of a conversion is not modelled.
\<close>

definition is_space :: "char \<Rightarrow> bool" where
  "is_space c = ((of_char c :: nat) \<in> {9, 10, 11, 12, 13, 28, 29, 30, 31, 32})"

definition is_digit :: "char \<Rightarrow> bool" where
  "is_digit c = (48 \<le> (of_char c :: nat) \<and> (of_char c :: nat) \<le> 57)"

definition digit_val :: "char \<Rightarrow> nat" where
  "digit_val c = of_char c - 48"

fun parse_digits :: "nat \<Rightarrow> string \<Rightarrow> nat option" where
  "parse_digits acc [] = Some acc"
| "parse_digits acc [c] = (if is_digit c then Some (10 * acc + digit_val c) else None)"
| "parse_digits acc (c # d # cs) =
     (if is_digit c then parse_digits (10 * acc + digit_val c) (d # cs)
      else if c = CHR ''_'' \<and> is_digit d then parse_digits acc (d # cs)
      else None)"

definition parse_nat :: "string \<Rightarrow> nat option" where
  "parse_nat s = (case s of [] \<Rightarrow> None | c # cs \<Rightarrow> if is_digit c then parse_digits 0 s else None)"

definition strip :: "string \<Rightarrow> string" where
  "strip s = rev (dropWhile is_space (rev (dropWhile is_space s)))"

definition py_int :: "string \<Rightarrow> exn + int" where
  "py_int s =
     (case strip s of
        [] \<Rightarrow> Inl (ValueError s)
      | c # cs \<Rightarrow>
          if c = CHR ''-'' then
            (case parse_nat cs of None \<Rightarrow> Inl (ValueError s) | Some n \<Rightarrow> Inr (- int n))
          else if c = CHR ''+'' then
            (case parse_nat cs of None \<Rightarrow> Inl (ValueError s) | Some n \<Rightarrow> Inr (int n))
          else
            (case parse_nat (c # cs) of None \<Rightarrow> Inl (ValueError s) | Some n \<Rightarrow> Inr (int n)))"

fun nat_digits :: "nat \<Rightarrow> string" where
  "nat_digits n =
     (if n < 10 then [char_of (48 + n)]
      else nat_digits (n div 10) @ [char_of (48 + n mod 10)])"

declare nat_digits.simps [simp del]

definition py_str_int :: "int \<Rightarrow> string" where
  "py_str_int i = (if i < 0 then CHR ''-'' # nat_digits (nat (- i)) else nat_digits (nat i))"

text \<open>\<open>str(v)\<close>, \<open>int(v)\<close> and \<open>bool(v)\<close> of a scalar.\<close>

fun py_str :: "scalar \<Rightarrow> string" where
  "py_str PyNone = ''None''"
| "py_str (PyBool b) = (if b then ''True'' else ''False'')"
| "py_str (PyInt i) = py_str_int i"
| "py_str (PyStr s) = s"

fun py_int_of :: "scalar \<Rightarrow> exn + int" where
  "py_int_of PyNone = Inl TypeError"
| "py_int_of (PyBool b) = Inr (if b then 1 else 0)"
| "py_int_of (PyInt i) = Inr i"
| "py_int_of (PyStr s) = py_int s"

fun py_bool :: "scalar \<Rightarrow> bool" where
  "py_bool PyNone = False"
| "py_bool (PyBool b) = b"
| "py_bool (PyInt i) = (i \<noteq> 0)"
| "py_bool (PyStr s) = (s \<noteq> [])"

section \<open>The substrate-interface library, as the SDK uses it\<close>

text \<open>
  The argument of \<open>compose_call\<close>: the module and function names and the entries of the
  \<open>call_params\<close> dict (\<open>call_value\<close> is its \<open>'value'\<close> entry, \<open>call_data\<close> its \<open>'data'\<close> entry,
  \<open>ref_time\<close> and \<open>proof_size\<close> the two entries of its \<open>'gas_limit'\<close> dict).
\<close>

record contract_call =
  call_module :: string
  call_function :: string
  dest :: "string option"
  call_value :: int
  ref_time :: int
  proof_size :: int
  storage_deposit_limit :: "int option"
  call_data :: bytes

text \<open>
  A receipt of a submitted extrinsic. The wrappers read \<open>is_success\<close> only, as a boolean;
  \<open>triggered_events\<close> (emitting address and event name) is carried and never read.
\<close>

record receipt =
  is_success :: bool
  triggered_events :: "(string \<times> string) list"

text \<open>
  The value of a storage query: \<open>QNone\<close> is \<open>None\<close>, \<open>QRow r\<close> a dict of scalar fields, and
  \<open>QAccount d\<close> an account record whose \<open>'data'\<close> entry is the dict \<open>d\<close> of integer balances.
  A block header is a dict of dicts.
\<close>

datatype qvalue = QNone | QRow "(string \<times> scalar) list" | QAccount "(string \<times> int) list"

type_synonym header = "(string \<times> (string \<times> scalar) list) list"

text \<open>
  A SubstrateInterface object: how the node answers each library call during one SDK
  operation (\<open>Inl\<close> when the call raises), and the calls made on the object so far. The
  types of a keypair, a composed call and a signed extrinsic are the library's own and
  stay abstract (\<open>'k\<close>, \<open>'c\<close>, \<open>'x\<close>).
\<close>

datatype ('k, 'c, 'x) rpc =
    ComposeCall contract_call
  | CreateSignedExtrinsic 'c "'k option"
  | SubmitExtrinsic 'x
  | Query string string "string list"
  | GetBlockHeader

record ('k, 'c, 'x) SubstrateInterface =
  compose_call :: "contract_call \<Rightarrow> exn + 'c"
  create_signed_extrinsic :: "'c \<Rightarrow> 'k option \<Rightarrow> exn + 'x"
  submit_extrinsic :: "'x \<Rightarrow> exn + receipt"
  query :: "string \<Rightarrow> string \<Rightarrow> string list \<Rightarrow> exn + qvalue"
  get_block_header :: "exn + header"
  calls :: "('k, 'c, 'x) rpc list"

definition called :: "('k, 'c, 'x) rpc \<Rightarrow> ('k, 'c, 'x) SubstrateInterface \<Rightarrow> ('k, 'c, 'x) SubstrateInterface" where
  "called r s = s\<lparr>calls := calls s @ [r]\<rparr>"

text \<open>
  The three library calls every mutating method makes, in the source's order:
  \<open>compose_call\<close>, \<open>create_signed_extrinsic\<close>, \<open>submit_extrinsic(wait_for_inclusion=True)\<close>.
  The first that raises ends the sequence.
\<close>

definition submit_call ::
  "('k, 'c, 'x) SubstrateInterface \<Rightarrow> 'k option \<Rightarrow> contract_call \<Rightarrow>
     (exn + receipt) \<times> ('k, 'c, 'x) SubstrateInterface" where
  "submit_call s kp p =
     (let s1 = called (ComposeCall p) s in
      case compose_call s p of
        Inl e \<Rightarrow> (Inl e, s1)
      | Inr c \<Rightarrow>
          (let s2 = called (CreateSignedExtrinsic c kp) s1 in
           case create_signed_extrinsic s c kp of
             Inl e \<Rightarrow> (Inl e, s2)
           | Inr x \<Rightarrow> (submit_extrinsic s x, called (SubmitExtrinsic x) s2)))"

section \<open>Contract types (contracts/types.py)\<close>

datatype MilestoneStatus = PENDING | COMPLETED | DISPUTED | RESOLVED | CANCELLED

datatype ProfessionalRole = LAWYER | DOCTOR | ARBITRATOR | NOTARY | AUDITOR | CONSULTANT_OTHER

datatype DisputeStatus = OPEN | VOTING | RESOLVED | APPEALED | CANCELLED

datatype VoteChoice = IN_FAVOR_OF_CLAIMANT | IN_FAVOR_OF_DEFENDANT

text \<open>The \<open>.value\<close> of the two enums whose members are passed to \<open>_encode_call\<close>.\<close>

fun role_value :: "ProfessionalRole \<Rightarrow> string" where
  "role_value LAWYER = ''Lawyer''"
| "role_value DOCTOR = ''Doctor''"
| "role_value ARBITRATOR = ''Arbitrator''"
| "role_value NOTARY = ''Notary''"
| "role_value AUDITOR = ''Auditor''"
| "role_value CONSULTANT_OTHER = ''ConsultantOther''"

fun vote_value :: "VoteChoice \<Rightarrow> string" where
  "vote_value IN_FAVOR_OF_CLAIMANT = ''InFavorOfClaimant''"
| "vote_value IN_FAVOR_OF_DEFENDANT = ''InFavorOfDefendant''"

record Milestone =
  description :: string
  amount :: string
  status :: MilestoneStatus
  deadline :: int
  oracle_verification :: bool

record Agreement =
  client :: string
  provider :: string
  total_amount :: string
  deposited_amount :: string
  created_at :: int
  dispute_timeout :: int
  oracle' :: "string option"
  is_active :: bool

record CreateAgreementParams =
  provider :: string
  milestone_descriptions :: "string list"
  milestone_amounts :: "string list"
  milestone_deadlines :: "int list"
  dispute_timeout :: int
  oracle' :: "string option"
  value' :: string

record ProfessionalProfile =
  account :: string
  role :: ProfessionalRole
  stake_amount :: string
  reputation_score :: int
  total_jobs :: int
  successful_jobs :: int
  registered_at :: int
  is_active :: bool
  metadata_uri :: string

record Review =
  reviewer :: string
  rating :: int
  comment :: string
  timestamp :: int

record RegisterProfessionalParams =
  role :: ProfessionalRole
  metadata_uri :: string
  stake_amount :: string

record SubmitReviewParams =
  professional :: string
  rating :: int
  comment :: string

record Dispute =
  dispute_id :: string
  claimant :: string
  defendant :: string
  description :: string
  evidence_uri :: string
  status :: DisputeStatus
  created_at :: int
  voting_ends_at :: int
  votes_for_claimant :: string
  votes_for_defendant :: string
  resolution :: "VoteChoice option"
  can_appeal :: bool

record Arbitrator =
  account :: string
  stake :: string
  disputes_participated :: int
  disputes_resolved :: int
  reputation :: int
  is_active :: bool

record CreateDisputeParams =
  defendant :: string
  description :: string
  evidence_uri :: string

record VoteParams =
  dispute_id :: string
  choice :: VoteChoice

record 'd ContractResult =
  success :: bool
  data :: "'d option"
  error :: "errmsg option"
  gas_consumed :: "int option"
  storage_deposit :: "string option"

text \<open>
  The dataclass constructor as the wrappers call it: \<open>success\<close>, \<open>data\<close> and \<open>error\<close> given
  (or left at the default \<open>None\<close>), the two telemetry fields always at their default.
\<close>

definition mk_ContractResult :: "bool \<Rightarrow> 'd option \<Rightarrow> errmsg option \<Rightarrow> 'd ContractResult" where
  "mk_ContractResult ok d e =
     \<lparr>success = ok, data = d, error = e, gas_consumed = None, storage_deposit = None\<rparr>"

section \<open>The contract wrappers\<close>

text \<open>
  \<open>EscrowContract\<close>, \<open>RegistryContract\<close> and \<open>ArbitrationContract\<close> declare the same four
  attributes and, word for word, the same \<open>__init__\<close>, \<open>_load_contract\<close>,
  \<open>set_contract_address\<close> and \<open>set_keypair\<close>; one record and one definition of each stand
  for the three classes. The attribute \<open>contract\<close> is set to \<open>None\<close> and never assigned again.
  A method that calls the library returns the wrapper with its \<open>substrate\<close> updated.
  The methods are coroutines that await nothing but, in \<open>get_all_reviews\<close>, two getters of
  the same wrapper; each is modelled as the function it runs when awaited.
  A parameter of a method whose name is also the name of a field is written with a prime
  (\<open>account'\<close>, \<open>professional'\<close>, \<open>dispute_id'\<close>), as are the fields \<open>oracle'\<close>, \<open>value'\<close> and
  \<open>id'\<close>, whose names Isabelle reserves.
\<close>

datatype ContractInstance = ContractInstance

record ('k, 'c, 'x) contract_wrapper =
  substrate :: "('k, 'c, 'x) SubstrateInterface"
  contract_address :: "string option"
  keypair :: "'k option"
  contract :: "ContractInstance option"

definition load_contract ::
  "('k, 'c, 'x) contract_wrapper \<Rightarrow> string \<Rightarrow> ('k, 'c, 'x) contract_wrapper" where
  "load_contract self address = self\<lparr>contract_address := Some address\<rparr>"

definition wrapper_init ::
  "('k, 'c, 'x) SubstrateInterface \<Rightarrow> string option \<Rightarrow> 'k option \<Rightarrow> ('k, 'c, 'x) contract_wrapper" where
  "wrapper_init s address kp =
     (let self = \<lparr>substrate = s, contract_address = address, keypair = kp, contract = None\<rparr>
      in if truthy_str address
         then (case address of None \<Rightarrow> self | Some a \<Rightarrow> load_contract self a)
         else self)"

definition set_contract_address ::
  "('k, 'c, 'x) contract_wrapper \<Rightarrow> string \<Rightarrow> ('k, 'c, 'x) contract_wrapper" where
  "set_contract_address self address = load_contract (self\<lparr>contract_address := Some address\<rparr>) address"

definition set_keypair ::
  "('k, 'c, 'x) contract_wrapper \<Rightarrow> 'k option \<Rightarrow> ('k, 'c, 'x) contract_wrapper" where
  "set_keypair self kp = self\<lparr>keypair := kp\<rparr>"

text \<open>
  A line printed by an \<open>except\<close> handler: the literal prefix of the f-string and the
  exception it formats. A read-only method returns its value and the lines it printed.
\<close>

datatype printed = Printed string exn

definition py_range :: "int \<Rightarrow> int list" where
  "py_range n = map int [0..<nat n]"

subsection \<open>RegistryContract (contracts/registry.py)\<close>

definition registry_encode_call ::
  "('k, 'c, 'x) contract_wrapper \<Rightarrow> string \<Rightarrow> pyarg list \<Rightarrow> bytes" where
  "registry_encode_call self method args = []"

definition register ::
  "('k, 'c, 'x) contract_wrapper \<Rightarrow> RegisterProfessionalParams \<Rightarrow> int option \<Rightarrow>
     'd ContractResult \<times> ('k, 'c, 'x) contract_wrapper" where
  "register self params gas_limit =
     (if \<not> truthy_str (contract_address self) then
        (mk_ContractResult False None (Some (Msg ''Contract not initialized'')), self)
      else if \<not> truthy_obj (keypair self) then
        (mk_ContractResult False None (Some (Msg ''Keypair not set'')), self)
      else
        (case py_int (RegisterProfessionalParams.stake_amount params) of
           Inl e \<Rightarrow> (mk_ContractResult False None (Some (StrOf e)), self)
         | Inr v \<Rightarrow>
             (case submit_call (substrate self) (keypair self)
                     \<lparr>call_module = ''Contracts'', call_function = ''call'',
                      dest = contract_address self, call_value = v,
                      ref_time = py_or gas_limit 50000000000, proof_size = 50000,
                      storage_deposit_limit = None,
                      call_data = registry_encode_call self ''register''
                        [Scalar (PyStr (role_value (RegisterProfessionalParams.role params))),
                         Scalar (PyStr (RegisterProfessionalParams.metadata_uri params))]\<rparr> of
                (Inl e, s) \<Rightarrow> (mk_ContractResult False None (Some (StrOf e)), self\<lparr>substrate := s\<rparr>)
              | (Inr rc, s) \<Rightarrow>
                  (mk_ContractResult (is_success rc) None
                     (if is_success rc then None else Some (Msg ''Transaction failed'')),
                   self\<lparr>substrate := s\<rparr>))))"

definition increase_stake ::
  "('k, 'c, 'x) contract_wrapper \<Rightarrow> string \<Rightarrow> int option \<Rightarrow>
     'd ContractResult \<times> ('k, 'c, 'x) contract_wrapper" where
  "increase_stake self additional_stake gas_limit =
     (if \<not> truthy_str (contract_address self) then
        (mk_ContractResult False None (Some (Msg ''Contract not initialized'')), self)
      else if \<not> truthy_obj (keypair self) then
        (mk_ContractResult False None (Some (Msg ''Keypair not set'')), self)
      else
        (case py_int additional_stake of
           Inl e \<Rightarrow> (mk_ContractResult False None (Some (StrOf e)), self)
         | Inr v \<Rightarrow>
             (case submit_call (substrate self) (keypair self)
                     \<lparr>call_module = ''Contracts'', call_function = ''call'',
                      dest = contract_address self, call_value = v,
                      ref_time = py_or gas_limit 30000000000, proof_size = 30000,
                      storage_deposit_limit = None,
                      call_data = registry_encode_call self ''increase_stake'' []\<rparr> of
                (Inl e, s) \<Rightarrow> (mk_ContractResult False None (Some (StrOf e)), self\<lparr>substrate := s\<rparr>)
              | (Inr rc, s) \<Rightarrow>
                  (mk_ContractResult (is_success rc) None
                     (if is_success rc then None else Some (Msg ''Transaction failed'')),
                   self\<lparr>substrate := s\<rparr>))))"

definition submit_review ::
  "('k, 'c, 'x) contract_wrapper \<Rightarrow> SubmitReviewParams \<Rightarrow> int option \<Rightarrow>
     'd ContractResult \<times> ('k, 'c, 'x) contract_wrapper" where
  "submit_review self params gas_limit =
     (if \<not> truthy_str (contract_address self) then
        (mk_ContractResult False None (Some (Msg ''Contract not initialized'')), self)
      else if \<not> truthy_obj (keypair self) then
        (mk_ContractResult False None (Some (Msg ''Keypair not set'')), self)
      else if SubmitReviewParams.rating params < 1 \<or> SubmitReviewParams.rating params > 5 then
        (mk_ContractResult False None (Some (Msg ''Rating must be between 1 and 5'')), self)
      else
        (case submit_call (substrate self) (keypair self)
                \<lparr>call_module = ''Contracts'', call_function = ''call'',
                 dest = contract_address self, call_value = 0,
                 ref_time = py_or gas_limit 50000000000, proof_size = 50000,
                 storage_deposit_limit = None,
                 call_data = registry_encode_call self ''submit_review''
                   [Scalar (PyStr (professional params)),
                    Scalar (PyInt (SubmitReviewParams.rating params)),
                    Scalar (PyStr (SubmitReviewParams.comment params))]\<rparr> of
           (Inl e, s) \<Rightarrow> (mk_ContractResult False None (Some (StrOf e)), self\<lparr>substrate := s\<rparr>)
         | (Inr rc, s) \<Rightarrow>
             (mk_ContractResult (is_success rc) None
                (if is_success rc then None else Some (Msg ''Transaction failed'')),
              self\<lparr>substrate := s\<rparr>)))"

definition withdraw_stake ::
  "('k, 'c, 'x) contract_wrapper \<Rightarrow> int option \<Rightarrow>
     'd ContractResult \<times> ('k, 'c, 'x) contract_wrapper" where
  "withdraw_stake self gas_limit =
     (if \<not> truthy_str (contract_address self) then
        (mk_ContractResult False None (Some (Msg ''Contract not initialized'')), self)
      else if \<not> truthy_obj (keypair self) then
        (mk_ContractResult False None (Some (Msg ''Keypair not set'')), self)
      else
        (case submit_call (substrate self) (keypair self)
                \<lparr>call_module = ''Contracts'', call_function = ''call'',
                 dest = contract_address self, call_value = 0,
                 ref_time = py_or gas_limit 40000000000, proof_size = 40000,
                 storage_deposit_limit = None,
                 call_data = registry_encode_call self ''withdraw_stake'' []\<rparr> of
           (Inl e, s) \<Rightarrow> (mk_ContractResult False None (Some (StrOf e)), self\<lparr>substrate := s\<rparr>)
         | (Inr rc, s) \<Rightarrow>
             (mk_ContractResult (is_success rc) None
                (if is_success rc then None else Some (Msg ''Transaction failed'')),
              self\<lparr>substrate := s\<rparr>)))"

text \<open>
  The storage getters. The body of each \<open>try\<close> is a \<open>return\<close> of a constant (the value
  \<open>Inr\<close> below); the handler prints and returns the same constant.
\<close>

definition get_profile ::
  "('k, 'c, 'x) contract_wrapper \<Rightarrow> string \<Rightarrow> ProfessionalProfile option \<times> printed list" where
  "get_profile self account' =
     (if \<not> truthy_str (contract_address self) then (None, [])
      else (case (Inr None :: exn + ProfessionalProfile option) of
              Inr r \<Rightarrow> (r, [])
            | Inl e \<Rightarrow> (None, [Printed ''Error getting profile: '' e])))"

definition get_review ::
  "('k, 'c, 'x) contract_wrapper \<Rightarrow> string \<Rightarrow> int \<Rightarrow> Review option \<times> printed list" where
  "get_review self professional' review_index =
     (if \<not> truthy_str (contract_address self) then (None, [])
      else (case (Inr None :: exn + Review option) of
              Inr r \<Rightarrow> (r, [])
            | Inl e \<Rightarrow> (None, [Printed ''Error getting review: '' e])))"

definition get_review_count ::
  "('k, 'c, 'x) contract_wrapper \<Rightarrow> string \<Rightarrow> int \<times> printed list" where
  "get_review_count self professional' =
     (if \<not> truthy_str (contract_address self) then (0, [])
      else (case (Inr 0 :: exn + int) of
              Inr r \<Rightarrow> (r, [])
            | Inl e \<Rightarrow> (0, [Printed ''Error getting review count: '' e])))"

definition get_min_stake ::
  "('k, 'c, 'x) contract_wrapper \<Rightarrow> ProfessionalRole \<Rightarrow> string \<times> printed list" where
  "get_min_stake self role' =
     (if \<not> truthy_str (contract_address self) then (''0'', [])
      else (case (Inr ''0'' :: exn + string) of
              Inr r \<Rightarrow> (r, [])
            | Inl e \<Rightarrow> (''0'', [Printed ''Error getting min stake: '' e])))"

definition is_active_professional ::
  "('k, 'c, 'x) contract_wrapper \<Rightarrow> string \<Rightarrow> bool \<times> printed list" where
  "is_active_professional self account' =
     (if \<not> truthy_str (contract_address self) then (False, [])
      else (case (Inr False :: exn + bool) of
              Inr r \<Rightarrow> (r, [])
            | Inl e \<Rightarrow> (False, [Printed ''Error checking active professional: '' e])))"

text \<open>
  \<open>get_all_reviews\<close>: the loop \<open>for i in range(count)\<close> as a recursion over the indices,
  appending each review that is truthy (a dataclass instance is; \<open>None\<close> is not).
\<close>

fun collect_reviews ::
  "('k, 'c, 'x) contract_wrapper \<Rightarrow> string \<Rightarrow> int list \<Rightarrow> Review list \<times> printed list \<Rightarrow>
     Review list \<times> printed list" where
  "collect_reviews self professional' [] acc = acc"
| "collect_reviews self professional' (i # rest) (reviews, out) =
     (case get_review self professional' i of
        (review, out') \<Rightarrow>
          collect_reviews self professional' rest
            (case review of None \<Rightarrow> reviews | Some r \<Rightarrow> reviews @ [r], out @ out'))"

definition get_all_reviews ::
  "('k, 'c, 'x) contract_wrapper \<Rightarrow> string \<Rightarrow> Review list \<times> printed list" where
  "get_all_reviews self professional' =
     (case get_review_count self professional' of
        (count, out) \<Rightarrow> collect_reviews self professional' (py_range count) ([], out))"

subsection \<open>EscrowContract (contracts/escrow.py)\<close>

definition escrow_encode_call ::
  "('k, 'c, 'x) contract_wrapper \<Rightarrow> string \<Rightarrow> pyarg list \<Rightarrow> bytes" where
  "escrow_encode_call self method args = []"

definition extract_agreement_id :: "('k, 'c, 'x) contract_wrapper \<Rightarrow> receipt \<Rightarrow> string option" where
  "extract_agreement_id self rc = None"

definition create_agreement ::
  "('k, 'c, 'x) contract_wrapper \<Rightarrow> CreateAgreementParams \<Rightarrow> int option \<Rightarrow>
     string ContractResult \<times> ('k, 'c, 'x) contract_wrapper" where
  "create_agreement self params gas_limit =
     (if \<not> truthy_str (contract_address self) then
        (mk_ContractResult False None (Some (Msg ''Contract not initialized'')), self)
      else if \<not> truthy_obj (keypair self) then
        (mk_ContractResult False None (Some (Msg ''Keypair not set'')), self)
      else
        (case py_int (value' params) of
           Inl e \<Rightarrow> (mk_ContractResult False None (Some (StrOf e)), self)
         | Inr v \<Rightarrow>
             (case submit_call (substrate self) (keypair self)
                     \<lparr>call_module = ''Contracts'', call_function = ''call'',
                      dest = contract_address self, call_value = v,
                      ref_time = py_or gas_limit 100000000000, proof_size = 100000,
                      storage_deposit_limit = None,
                      call_data = escrow_encode_call self ''create_agreement''
                        [Scalar (PyStr (CreateAgreementParams.provider params)),
                         PyList (map PyStr (milestone_descriptions params)),
                         PyList (map PyStr (milestone_amounts params)),
                         PyList (map PyInt (milestone_deadlines params)),
                         Scalar (PyInt (CreateAgreementParams.dispute_timeout params)),
                         Scalar (case CreateAgreementParams.oracle' params of None \<Rightarrow> PyNone | Some a \<Rightarrow> PyStr a)]\<rparr> of
                (Inl e, s) \<Rightarrow> (mk_ContractResult False None (Some (StrOf e)), self\<lparr>substrate := s\<rparr>)
              | (Inr rc, s) \<Rightarrow>
                (if is_success rc then
                   (let agreement_id = extract_agreement_id self rc in mk_ContractResult True agreement_id None)
                 else mk_ContractResult False None (Some (Msg ''Transaction failed'')),
                 self\<lparr>substrate := s\<rparr>))))"

definition complete_milestone ::
  "('k, 'c, 'x) contract_wrapper \<Rightarrow> string \<Rightarrow> int \<Rightarrow> int option \<Rightarrow>
     'd ContractResult \<times> ('k, 'c, 'x) contract_wrapper" where
  "complete_milestone self agreement_id milestone_index gas_limit =
     (if \<not> truthy_str (contract_address self) then
        (mk_ContractResult False None (Some (Msg ''Contract not initialized'')), self)
      else if \<not> truthy_obj (keypair self) then
        (mk_ContractResult False None (Some (Msg ''Keypair not set'')), self)
      else
        (case submit_call (substrate self) (keypair self)
                \<lparr>call_module = ''Contracts'', call_function = ''call'',
                 dest = contract_address self, call_value = 0,
                 ref_time = py_or gas_limit 50000000000, proof_size = 50000,
                 storage_deposit_limit = None,
                 call_data = escrow_encode_call self ''complete_milestone''
                   [Scalar (PyStr agreement_id),
                    Scalar (PyInt milestone_index)]\<rparr> of
           (Inl e, s) \<Rightarrow> (mk_ContractResult False None (Some (StrOf e)), self\<lparr>substrate := s\<rparr>)
         | (Inr rc, s) \<Rightarrow>
           (mk_ContractResult (is_success rc) None
              (if is_success rc then None else Some (Msg ''Transaction failed'')),
            self\<lparr>substrate := s\<rparr>)))"

definition approve_and_release ::
  "('k, 'c, 'x) contract_wrapper \<Rightarrow> string \<Rightarrow> int \<Rightarrow> int option \<Rightarrow>
     'd ContractResult \<times> ('k, 'c, 'x) contract_wrapper" where
  "approve_and_release self agreement_id milestone_index gas_limit =
     (if \<not> truthy_str (contract_address self) then
        (mk_ContractResult False None (Some (Msg ''Contract not initialized'')), self)
      else if \<not> truthy_obj (keypair self) then
        (mk_ContractResult False None (Some (Msg ''Keypair not set'')), self)
      else
        (case submit_call (substrate self) (keypair self)
                \<lparr>call_module = ''Contracts'', call_function = ''call'',
                 dest = contract_address self, call_value = 0,
                 ref_time = py_or gas_limit 50000000000, proof_size = 50000,
                 storage_deposit_limit = None,
                 call_data = escrow_encode_call self ''approve_and_release''
                   [Scalar (PyStr agreement_id),
                    Scalar (PyInt milestone_index)]\<rparr> of
           (Inl e, s) \<Rightarrow> (mk_ContractResult False None (Some (StrOf e)), self\<lparr>substrate := s\<rparr>)
         | (Inr rc, s) \<Rightarrow>
           (mk_ContractResult (is_success rc) None
              (if is_success rc then None else Some (Msg ''Transaction failed'')),
            self\<lparr>substrate := s\<rparr>)))"

definition raise_dispute ::
  "('k, 'c, 'x) contract_wrapper \<Rightarrow> string \<Rightarrow> int \<Rightarrow> int option \<Rightarrow>
     'd ContractResult \<times> ('k, 'c, 'x) contract_wrapper" where
  "raise_dispute self agreement_id milestone_index gas_limit =
     (if \<not> truthy_str (contract_address self) then
        (mk_ContractResult False None (Some (Msg ''Contract not initialized'')), self)
      else if \<not> truthy_obj (keypair self) then
        (mk_ContractResult False None (Some (Msg ''Keypair not set'')), self)
      else
        (case submit_call (substrate self) (keypair self)
                \<lparr>call_module = ''Contracts'', call_function = ''call'',
                 dest = contract_address self, call_value = 0,
                 ref_time = py_or gas_limit 50000000000, proof_size = 50000,
                 storage_deposit_limit = None,
                 call_data = escrow_encode_call self ''raise_dispute''
                   [Scalar (PyStr agreement_id),
                    Scalar (PyInt milestone_index)]\<rparr> of
           (Inl e, s) \<Rightarrow> (mk_ContractResult False None (Some (StrOf e)), self\<lparr>substrate := s\<rparr>)
         | (Inr rc, s) \<Rightarrow>
           (mk_ContractResult (is_success rc) None
              (if is_success rc then None else Some (Msg ''Transaction failed'')),
            self\<lparr>substrate := s\<rparr>)))"

definition resolve_dispute ::
  "('k, 'c, 'x) contract_wrapper \<Rightarrow> string \<Rightarrow> int \<Rightarrow> bool \<Rightarrow> int option \<Rightarrow>
     'd ContractResult \<times> ('k, 'c, 'x) contract_wrapper" where
  "resolve_dispute self agreement_id milestone_index release_to_provider gas_limit =
     (if \<not> truthy_str (contract_address self) then
        (mk_ContractResult False None (Some (Msg ''Contract not initialized'')), self)
      else if \<not> truthy_obj (keypair self) then
        (mk_ContractResult False None (Some (Msg ''Keypair not set'')), self)
      else
        (case submit_call (substrate self) (keypair self)
                \<lparr>call_module = ''Contracts'', call_function = ''call'',
                 dest = contract_address self, call_value = 0,
                 ref_time = py_or gas_limit 50000000000, proof_size = 50000,
                 storage_deposit_limit = None,
                 call_data = escrow_encode_call self ''resolve_dispute''
                   [Scalar (PyStr agreement_id),
                    Scalar (PyInt milestone_index),
                    Scalar (PyBool release_to_provider)]\<rparr> of
           (Inl e, s) \<Rightarrow> (mk_ContractResult False None (Some (StrOf e)), self\<lparr>substrate := s\<rparr>)
         | (Inr rc, s) \<Rightarrow>
           (mk_ContractResult (is_success rc) None
              (if is_success rc then None else Some (Msg ''Transaction failed'')),
            self\<lparr>substrate := s\<rparr>)))"

definition get_agreement ::
  "('k, 'c, 'x) contract_wrapper \<Rightarrow> string \<Rightarrow> Agreement option \<times> printed list" where
  "get_agreement self agreement_id =
     (if \<not> truthy_str (contract_address self) then (None, [])
      else (case (Inr None :: exn + Agreement option) of
              Inr r \<Rightarrow> (r, [])
            | Inl e \<Rightarrow> (None, [Printed ''Error getting agreement: '' e])))"

definition get_milestone ::
  "('k, 'c, 'x) contract_wrapper \<Rightarrow> string \<Rightarrow> int \<Rightarrow> Milestone option \<times> printed list" where
  "get_milestone self agreement_id milestone_index =
     (if \<not> truthy_str (contract_address self) then (None, [])
      else (case (Inr None :: exn + Milestone option) of
              Inr r \<Rightarrow> (r, [])
            | Inl e \<Rightarrow> (None, [Printed ''Error getting milestone: '' e])))"

definition get_milestone_count ::
  "('k, 'c, 'x) contract_wrapper \<Rightarrow> string \<Rightarrow> int \<times> printed list" where
  "get_milestone_count self agreement_id =
     (if \<not> truthy_str (contract_address self) then (0, [])
      else (case (Inr 0 :: exn + int) of
              Inr r \<Rightarrow> (r, [])
            | Inl e \<Rightarrow> (0, [Printed ''Error getting milestone count: '' e])))"

subsection \<open>ArbitrationContract (contracts/arbitration.py)\<close>

definition arbitration_encode_call ::
  "('k, 'c, 'x) contract_wrapper \<Rightarrow> string \<Rightarrow> pyarg list \<Rightarrow> bytes" where
  "arbitration_encode_call self method args = []"

definition extract_dispute_id :: "('k, 'c, 'x) contract_wrapper \<Rightarrow> receipt \<Rightarrow> string option" where
  "extract_dispute_id self rc = None"

definition extract_resolution :: "('k, 'c, 'x) contract_wrapper \<Rightarrow> receipt \<Rightarrow> VoteChoice option" where
  "extract_resolution self rc = None"

definition register_arbitrator ::
  "('k, 'c, 'x) contract_wrapper \<Rightarrow> string \<Rightarrow> int option \<Rightarrow>
     'd ContractResult \<times> ('k, 'c, 'x) contract_wrapper" where
  "register_arbitrator self stake_amount' gas_limit =
     (if \<not> truthy_str (contract_address self) then
        (mk_ContractResult False None (Some (Msg ''Contract not initialized'')), self)
      else if \<not> truthy_obj (keypair self) then
        (mk_ContractResult False None (Some (Msg ''Keypair not set'')), self)
      else
        (case py_int (stake_amount') of
           Inl e \<Rightarrow> (mk_ContractResult False None (Some (StrOf e)), self)
         | Inr v \<Rightarrow>
             (case submit_call (substrate self) (keypair self)
                     \<lparr>call_module = ''Contracts'', call_function = ''call'',
                      dest = contract_address self, call_value = v,
                      ref_time = py_or gas_limit 50000000000, proof_size = 50000,
                      storage_deposit_limit = None,
                      call_data = arbitration_encode_call self ''register_arbitrator''
                        []\<rparr> of
                (Inl e, s) \<Rightarrow> (mk_ContractResult False None (Some (StrOf e)), self\<lparr>substrate := s\<rparr>)
              | (Inr rc, s) \<Rightarrow>
                (mk_ContractResult (is_success rc) None
                   (if is_success rc then None else Some (Msg ''Transaction failed'')),
                 self\<lparr>substrate := s\<rparr>))))"

definition increase_arbitrator_stake ::
  "('k, 'c, 'x) contract_wrapper \<Rightarrow> string \<Rightarrow> int option \<Rightarrow>
     'd ContractResult \<times> ('k, 'c, 'x) contract_wrapper" where
  "increase_arbitrator_stake self additional_stake gas_limit =
     (if \<not> truthy_str (contract_address self) then
        (mk_ContractResult False None (Some (Msg ''Contract not initialized'')), self)
      else if \<not> truthy_obj (keypair self) then
        (mk_ContractResult False None (Some (Msg ''Keypair not set'')), self)
      else
        (case py_int (additional_stake) of
           Inl e \<Rightarrow> (mk_ContractResult False None (Some (StrOf e)), self)
         | Inr v \<Rightarrow>
             (case submit_call (substrate self) (keypair self)
                     \<lparr>call_module = ''Contracts'', call_function = ''call'',
                      dest = contract_address self, call_value = v,
                      ref_time = py_or gas_limit 30000000000, proof_size = 30000,
                      storage_deposit_limit = None,
                      call_data = arbitration_encode_call self ''increase_arbitrator_stake''
                        []\<rparr> of
                (Inl e, s) \<Rightarrow> (mk_ContractResult False None (Some (StrOf e)), self\<lparr>substrate := s\<rparr>)
              | (Inr rc, s) \<Rightarrow>
                (mk_ContractResult (is_success rc) None
                   (if is_success rc then None else Some (Msg ''Transaction failed'')),
                 self\<lparr>substrate := s\<rparr>))))"

definition create_dispute ::
  "('k, 'c, 'x) contract_wrapper \<Rightarrow> CreateDisputeParams \<Rightarrow> int option \<Rightarrow>
     string ContractResult \<times> ('k, 'c, 'x) contract_wrapper" where
  "create_dispute self params gas_limit =
     (if \<not> truthy_str (contract_address self) then
        (mk_ContractResult False None (Some (Msg ''Contract not initialized'')), self)
      else if \<not> truthy_obj (keypair self) then
        (mk_ContractResult False None (Some (Msg ''Keypair not set'')), self)
      else
        (case submit_call (substrate self) (keypair self)
                \<lparr>call_module = ''Contracts'', call_function = ''call'',
                 dest = contract_address self, call_value = 0,
                 ref_time = py_or gas_limit 60000000000, proof_size = 60000,
                 storage_deposit_limit = None,
                 call_data = arbitration_encode_call self ''create_dispute''
                   [Scalar (PyStr (CreateDisputeParams.defendant params)),
                    Scalar (PyStr (CreateDisputeParams.description params)),
                    Scalar (PyStr (CreateDisputeParams.evidence_uri params))]\<rparr> of
           (Inl e, s) \<Rightarrow> (mk_ContractResult False None (Some (StrOf e)), self\<lparr>substrate := s\<rparr>)
         | (Inr rc, s) \<Rightarrow>
           (if is_success rc then
              (let dispute_id' = extract_dispute_id self rc in mk_ContractResult True dispute_id' None)
            else mk_ContractResult False None (Some (Msg ''Transaction failed'')),
            self\<lparr>substrate := s\<rparr>)))"

definition start_voting ::
  "('k, 'c, 'x) contract_wrapper \<Rightarrow> string \<Rightarrow> int option \<Rightarrow>
     'd ContractResult \<times> ('k, 'c, 'x) contract_wrapper" where
  "start_voting self dispute_id' gas_limit =
     (if \<not> truthy_str (contract_address self) then
        (mk_ContractResult False None (Some (Msg ''Contract not initialized'')), self)
      else if \<not> truthy_obj (keypair self) then
        (mk_ContractResult False None (Some (Msg ''Keypair not set'')), self)
      else
        (case submit_call (substrate self) (keypair self)
                \<lparr>call_module = ''Contracts'', call_function = ''call'',
                 dest = contract_address self, call_value = 0,
                 ref_time = py_or gas_limit 40000000000, proof_size = 40000,
                 storage_deposit_limit = None,
                 call_data = arbitration_encode_call self ''start_voting''
                   [Scalar (PyStr dispute_id')]\<rparr> of
           (Inl e, s) \<Rightarrow> (mk_ContractResult False None (Some (StrOf e)), self\<lparr>substrate := s\<rparr>)
         | (Inr rc, s) \<Rightarrow>
           (mk_ContractResult (is_success rc) None
              (if is_success rc then None else Some (Msg ''Transaction failed'')),
            self\<lparr>substrate := s\<rparr>)))"

definition vote ::
  "('k, 'c, 'x) contract_wrapper \<Rightarrow> VoteParams \<Rightarrow> int option \<Rightarrow>
     'd ContractResult \<times> ('k, 'c, 'x) contract_wrapper" where
  "vote self params gas_limit =
     (if \<not> truthy_str (contract_address self) then
        (mk_ContractResult False None (Some (Msg ''Contract not initialized'')), self)
      else if \<not> truthy_obj (keypair self) then
        (mk_ContractResult False None (Some (Msg ''Keypair not set'')), self)
      else
        (case submit_call (substrate self) (keypair self)
                \<lparr>call_module = ''Contracts'', call_function = ''call'',
                 dest = contract_address self, call_value = 0,
                 ref_time = py_or gas_limit 50000000000, proof_size = 50000,
                 storage_deposit_limit = None,
                 call_data = arbitration_encode_call self ''vote''
                   [Scalar (PyStr (VoteParams.dispute_id params)),
                    Scalar (PyStr (vote_value (choice params)))]\<rparr> of
           (Inl e, s) \<Rightarrow> (mk_ContractResult False None (Some (StrOf e)), self\<lparr>substrate := s\<rparr>)
         | (Inr rc, s) \<Rightarrow>
           (mk_ContractResult (is_success rc) None
              (if is_success rc then None else Some (Msg ''Transaction failed'')),
            self\<lparr>substrate := s\<rparr>)))"

definition finalize_dispute ::
  "('k, 'c, 'x) contract_wrapper \<Rightarrow> string \<Rightarrow> int option \<Rightarrow>
     VoteChoice ContractResult \<times> ('k, 'c, 'x) contract_wrapper" where
  "finalize_dispute self dispute_id' gas_limit =
     (if \<not> truthy_str (contract_address self) then
        (mk_ContractResult False None (Some (Msg ''Contract not initialized'')), self)
      else if \<not> truthy_obj (keypair self) then
        (mk_ContractResult False None (Some (Msg ''Keypair not set'')), self)
      else
        (case submit_call (substrate self) (keypair self)
                \<lparr>call_module = ''Contracts'', call_function = ''call'',
                 dest = contract_address self, call_value = 0,
                 ref_time = py_or gas_limit 50000000000, proof_size = 50000,
                 storage_deposit_limit = None,
                 call_data = arbitration_encode_call self ''finalize_dispute''
                   [Scalar (PyStr dispute_id')]\<rparr> of
           (Inl e, s) \<Rightarrow> (mk_ContractResult False None (Some (StrOf e)), self\<lparr>substrate := s\<rparr>)
         | (Inr rc, s) \<Rightarrow>
           (if is_success rc then
              (let resolution' = extract_resolution self rc in mk_ContractResult True resolution' None)
            else mk_ContractResult False None (Some (Msg ''Transaction failed'')),
            self\<lparr>substrate := s\<rparr>)))"

definition appeal_dispute ::
  "('k, 'c, 'x) contract_wrapper \<Rightarrow> string \<Rightarrow> int option \<Rightarrow>
     'd ContractResult \<times> ('k, 'c, 'x) contract_wrapper" where
  "appeal_dispute self dispute_id' gas_limit =
     (if \<not> truthy_str (contract_address self) then
        (mk_ContractResult False None (Some (Msg ''Contract not initialized'')), self)
      else if \<not> truthy_obj (keypair self) then
        (mk_ContractResult False None (Some (Msg ''Keypair not set'')), self)
      else
        (case submit_call (substrate self) (keypair self)
                \<lparr>call_module = ''Contracts'', call_function = ''call'',
                 dest = contract_address self, call_value = 0,
                 ref_time = py_or gas_limit 50000000000, proof_size = 50000,
                 storage_deposit_limit = None,
                 call_data = arbitration_encode_call self ''appeal_dispute''
                   [Scalar (PyStr dispute_id')]\<rparr> of
           (Inl e, s) \<Rightarrow> (mk_ContractResult False None (Some (StrOf e)), self\<lparr>substrate := s\<rparr>)
         | (Inr rc, s) \<Rightarrow>
           (mk_ContractResult (is_success rc) None
              (if is_success rc then None else Some (Msg ''Transaction failed'')),
            self\<lparr>substrate := s\<rparr>)))"

definition get_dispute ::
  "('k, 'c, 'x) contract_wrapper \<Rightarrow> string \<Rightarrow> Dispute option \<times> printed list" where
  "get_dispute self dispute_id' =
     (if \<not> truthy_str (contract_address self) then (None, [])
      else (case (Inr None :: exn + Dispute option) of
              Inr r \<Rightarrow> (r, [])
            | Inl e \<Rightarrow> (None, [Printed ''Error getting dispute: '' e])))"

definition get_arbitrator ::
  "('k, 'c, 'x) contract_wrapper \<Rightarrow> string \<Rightarrow> Arbitrator option \<times> printed list" where
  "get_arbitrator self account' =
     (if \<not> truthy_str (contract_address self) then (None, [])
      else (case (Inr None :: exn + Arbitrator option) of
              Inr r \<Rightarrow> (r, [])
            | Inl e \<Rightarrow> (None, [Printed ''Error getting arbitrator: '' e])))"

definition get_vote ::
  "('k, 'c, 'x) contract_wrapper \<Rightarrow> string \<Rightarrow> string \<Rightarrow> VoteChoice option \<times> printed list" where
  "get_vote self dispute_id' arbitrator =
     (if \<not> truthy_str (contract_address self) then (None, [])
      else (case (Inr None :: exn + VoteChoice option) of
              Inr r \<Rightarrow> (r, [])
            | Inl e \<Rightarrow> (None, [Printed ''Error getting vote: '' e])))"

definition is_active_arbitrator ::
  "('k, 'c, 'x) contract_wrapper \<Rightarrow> string \<Rightarrow> bool \<times> printed list" where
  "is_active_arbitrator self account' =
     (if \<not> truthy_str (contract_address self) then (False, [])
      else (case (Inr False :: exn + bool) of
              Inr r \<Rightarrow> (r, [])
            | Inl e \<Rightarrow> (False, [Printed ''Error checking active arbitrator: '' e])))"

section \<open>GlinContracts (contracts/client.py)\<close>

text \<open>
  The client builds the three wrappers from one substrate object and one keypair.
  From here on \<open>substrate\<close> and \<open>keypair\<close> name the client's attributes; a wrapper's are
  written \<open>contract_wrapper.substrate\<close> and \<open>contract_wrapper.keypair\<close>.
\<close>

record ('k, 'c, 'x) GlinContracts =
  substrate :: "('k, 'c, 'x) SubstrateInterface"
  keypair :: "'k option"
  escrow :: "('k, 'c, 'x) contract_wrapper"
  registry :: "('k, 'c, 'x) contract_wrapper"
  arbitration :: "('k, 'c, 'x) contract_wrapper"

definition GlinContracts_init ::
  "('k, 'c, 'x) SubstrateInterface \<Rightarrow> 'k option \<Rightarrow> string option \<Rightarrow> string option \<Rightarrow> string option \<Rightarrow>
     ('k, 'c, 'x) GlinContracts" where
  "GlinContracts_init s kp escrow_address registry_address arbitration_address =
     \<lparr>substrate = s, keypair = kp,
      escrow = wrapper_init s escrow_address kp,
      registry = wrapper_init s registry_address kp,
      arbitration = wrapper_init s arbitration_address kp\<rparr>"

definition GlinContracts_set_keypair ::
  "('k, 'c, 'x) GlinContracts \<Rightarrow> 'k option \<Rightarrow> ('k, 'c, 'x) GlinContracts" where
  "GlinContracts_set_keypair self kp =
     self\<lparr>keypair := kp,
          escrow := set_keypair (escrow self) kp,
          registry := set_keypair (registry self) kp,
          arbitration := set_keypair (arbitration self) kp\<rparr>"

text \<open>
  \<open>result.value["data"]\<close>, for a value that is then only subscripted: \<open>None\<close> is not
  subscriptable, a row may lack the key, and a row whose \<open>'data'\<close> is a scalar raises
  TypeError at the first subscript of it.
\<close>

fun value_data :: "qvalue \<Rightarrow> exn + (string \<times> int) list" where
  "value_data QNone = Inl TypeError"
| "value_data (QRow r) = (case map_of r ''data'' of None \<Rightarrow> Inl (KeyError ''data'') | Some v \<Rightarrow> Inl TypeError)"
| "value_data (QAccount d) = Inr d"

definition getitem :: "(string \<times> 'v) list \<Rightarrow> string \<Rightarrow> exn + 'v" where
  "getitem d k = (case map_of d k of None \<Rightarrow> Inl (KeyError k) | Some v \<Rightarrow> Inr v)"

definition dict_get :: "(string \<times> 'v) list \<Rightarrow> string \<Rightarrow> 'v \<Rightarrow> 'v" where
  "dict_get d k dflt = (case map_of d k of None \<Rightarrow> dflt | Some v \<Rightarrow> v)"

text \<open>Sequencing of steps that may raise: the first exception ends the sequence.\<close>

definition bind_exn :: "exn + 'a \<Rightarrow> ('a \<Rightarrow> exn + 'b) \<Rightarrow> exn + 'b" where
  "bind_exn m f = (case m of Inl e \<Rightarrow> Inl e | Inr v \<Rightarrow> f v)"

definition is_contract ::
  "('k, 'c, 'x) GlinContracts \<Rightarrow> string \<Rightarrow> bool \<times> ('k, 'c, 'x) GlinContracts" where
  "is_contract self address =
     (case query (substrate self) ''Contracts'' ''ContractInfoOf'' [address] of
        Inr v \<Rightarrow>
          (v \<noteq> QNone,
           self\<lparr>substrate := called (Query ''Contracts'' ''ContractInfoOf'' [address]) (substrate self)\<rparr>)
      | Inl e \<Rightarrow>
          (False,
           self\<lparr>substrate := called (Query ''Contracts'' ''ContractInfoOf'' [address]) (substrate self)\<rparr>))"

definition get_contract_balance ::
  "('k, 'c, 'x) GlinContracts \<Rightarrow> string \<Rightarrow> (exn + string) \<times> ('k, 'c, 'x) GlinContracts" where
  "get_contract_balance self address =
     (bind_exn (query (substrate self) ''System'' ''Account'' [address])
        (\<lambda>v. bind_exn (value_data v)
          (\<lambda>d. bind_exn (getitem d ''free'')
            (\<lambda>f. Inr (py_str_int f)))),
      self\<lparr>substrate := called (Query ''System'' ''Account'' [address]) (substrate self)\<rparr>)"

section \<open>GlinClient (client.py, types.py)\<close>

record Balance =
  free :: string
  reserved :: string
  frozen :: string
  total :: string

record ChainTask =
  id' :: string
  creator :: string
  bounty :: string
  min_providers :: int
  max_providers :: int
  ipfs_hash :: string
  status :: string

record ChainProvider =
  account :: string
  stake :: string
  reputation_score :: int
  hardware_tier :: string
  status :: string
  is_slashed :: bool

text \<open>
  The client owns its connection: \<open>substrate\<close> is \<open>None\<close> until \<open>connect\<close> builds a
  SubstrateInterface for \<open>rpc_url\<close>. The library's constructor is the parameter \<open>new\<close> of
  every method that may connect; it raises when the node cannot be reached. A method
  returns the client with its connection updated.
\<close>

record ('k, 'c, 'x) GlinClient =
  rpc_url :: string
  substrate :: "('k, 'c, 'x) SubstrateInterface option"

definition connect ::
  "(string \<Rightarrow> exn + ('k, 'c, 'x) SubstrateInterface) \<Rightarrow> ('k, 'c, 'x) GlinClient \<Rightarrow>
     exn + ('k, 'c, 'x) GlinClient" where
  "connect new self =
     (if \<not> truthy_obj (substrate self) then
        (case new (rpc_url self) of
           Inl e \<Rightarrow> Inl e
         | Inr s \<Rightarrow> Inr (self\<lparr>substrate := Some s\<rparr>))
      else Inr self)"

definition ensure_connected ::
  "(string \<Rightarrow> exn + ('k, 'c, 'x) SubstrateInterface) \<Rightarrow> ('k, 'c, 'x) GlinClient \<Rightarrow>
     exn + ('k, 'c, 'x) GlinClient" where
  "ensure_connected new self = (if \<not> truthy_obj (substrate self) then connect new self else Inr self)"

text \<open>\<open>self.substrate.query(module, storage, keys)\<close> on the client's connection.\<close>

definition client_query ::
  "('k, 'c, 'x) GlinClient \<Rightarrow> string \<Rightarrow> string \<Rightarrow> string list \<Rightarrow>
     (exn + qvalue) \<times> ('k, 'c, 'x) GlinClient" where
  "client_query self m st keys =
     (case substrate self of
        None \<Rightarrow> (Inl AttributeError, self)
      | Some s \<Rightarrow> (query s m st keys, self\<lparr>substrate := Some (called (Query m st keys) s)\<rparr>))"

definition get_balance ::
  "(string \<Rightarrow> exn + ('k, 'c, 'x) SubstrateInterface) \<Rightarrow> ('k, 'c, 'x) GlinClient \<Rightarrow> string \<Rightarrow>
     (exn + Balance) \<times> ('k, 'c, 'x) GlinClient" where
  "get_balance new self address =
     (case ensure_connected new self of
        Inl e \<Rightarrow> (Inl e, self)
      | Inr self1 \<Rightarrow>
          (case client_query self1 ''System'' ''Account'' [address] of
             (result, self2) \<Rightarrow>
               (bind_exn result
                  (\<lambda>v. bind_exn (value_data v)
                    (\<lambda>d. bind_exn (getitem d ''free'')
                      (\<lambda>f. bind_exn (getitem d ''reserved'')
                        (\<lambda>r. Inr \<lparr>free = py_str_int f,
                                  reserved = py_str_int r,
                                  frozen = py_str_int (dict_get d ''frozen'' (dict_get d ''miscFrozen'' 0)),
                                  total = py_str_int (f + r)\<rparr>)))),
                self2)))"

text \<open>
  The body of the \<open>try\<close> of \<open>get_task\<close> and of \<open>get_provider\<close>, after the query: the
  keyword arguments of the dataclass are evaluated left to right. An account record has
  none of the keys read here.
\<close>

fun task_of :: "string \<Rightarrow> qvalue \<Rightarrow> exn + ChainTask option" where
  "task_of task_id QNone = Inr None"
| "task_of task_id (QAccount d) = Inl (KeyError ''creator'')"
| "task_of task_id (QRow task_data) =
     bind_exn (getitem task_data ''creator'')
       (\<lambda>c. bind_exn (getitem task_data ''bounty'')
         (\<lambda>b. bind_exn (bind_exn (getitem task_data ''minProviders'') py_int_of)
           (\<lambda>mn. bind_exn (bind_exn (getitem task_data ''maxProviders'') py_int_of)
             (\<lambda>mx. bind_exn (getitem task_data ''ipfsHash'')
               (\<lambda>h. bind_exn (getitem task_data ''status'')
                 (\<lambda>st. Inr (Some \<lparr>id' = task_id, creator = py_str c, bounty = py_str b,
                                    min_providers = mn, max_providers = mx,
                                    ipfs_hash = py_str h, status = py_str st\<rparr>)))))))"

fun provider_of :: "string \<Rightarrow> qvalue \<Rightarrow> exn + ChainProvider option" where
  "provider_of address QNone = Inr None"
| "provider_of address (QAccount d) = Inl (KeyError ''stake'')"
| "provider_of address (QRow provider_data) =
     bind_exn (getitem provider_data ''stake'')
       (\<lambda>sk. bind_exn (bind_exn (getitem provider_data ''reputationScore'') py_int_of)
         (\<lambda>rep. bind_exn (getitem provider_data ''hardwareTier'')
           (\<lambda>h. bind_exn (getitem provider_data ''status'')
             (\<lambda>st. bind_exn (getitem provider_data ''isSlashed'')
               (\<lambda>sl. Inr (Some \<lparr>account = address, stake = py_str sk, reputation_score = rep,
                                  hardware_tier = py_str h, status = py_str st,
                                  is_slashed = py_bool sl\<rparr>))))))"

definition get_task ::
  "(string \<Rightarrow> exn + ('k, 'c, 'x) SubstrateInterface) \<Rightarrow> ('k, 'c, 'x) GlinClient \<Rightarrow> string \<Rightarrow>
     (exn + ChainTask option) \<times> ('k, 'c, 'x) GlinClient \<times> printed list" where
  "get_task new self task_id =
     (case ensure_connected new self of
        Inl e \<Rightarrow> (Inl e, self, [])
      | Inr self1 \<Rightarrow>
          (case client_query self1 ''TaskRegistry'' ''Tasks'' [task_id] of
             (result, self2) \<Rightarrow>
               (case bind_exn result (task_of task_id) of
                  Inr t \<Rightarrow> (Inr t, self2, [])
                | Inl e \<Rightarrow> (Inr None, self2, [Printed ''Error fetching task: '' e]))))"

definition get_provider ::
  "(string \<Rightarrow> exn + ('k, 'c, 'x) SubstrateInterface) \<Rightarrow> ('k, 'c, 'x) GlinClient \<Rightarrow> string \<Rightarrow>
     (exn + ChainProvider option) \<times> ('k, 'c, 'x) GlinClient \<times> printed list" where
  "get_provider new self address =
     (case ensure_connected new self of
        Inl e \<Rightarrow> (Inl e, self, [])
      | Inr self1 \<Rightarrow>
          (case client_query self1 ''ProviderStaking'' ''Providers'' [address] of
             (result, self2) \<Rightarrow>
               (case bind_exn result (provider_of address) of
                  Inr t \<Rightarrow> (Inr t, self2, [])
                | Inl e \<Rightarrow> (Inr None, self2, [Printed ''Error fetching provider: '' e]))))"

definition get_block_number ::
  "(string \<Rightarrow> exn + ('k, 'c, 'x) SubstrateInterface) \<Rightarrow> ('k, 'c, 'x) GlinClient \<Rightarrow>
     (exn + scalar) \<times> ('k, 'c, 'x) GlinClient" where
  "get_block_number new self =
     (case ensure_connected new self of
        Inl e \<Rightarrow> (Inl e, self)
      | Inr self1 \<Rightarrow>
          (case substrate self1 of
             None \<Rightarrow> (Inl AttributeError, self1)
           | Some s \<Rightarrow>
               (bind_exn (get_block_header s)
                  (\<lambda>hd. bind_exn (getitem hd ''header'') (\<lambda>h. getitem h ''number'')),
                self1\<lparr>substrate := Some (called GetBlockHeader s)\<rparr>)))"

section \<open>The mutating entry points of the three wrappers\<close>

text \<open>
  To speak of every mutating operation at once, the sixteen entry points are the
  constructors of one datatype (five of the escrow wrapper, four of the registry
  wrapper, seven of the arbitration wrapper), each with the arguments of its method, and
  \<open>perform\<close> calls the method. Three methods return a payload on success: an agreement
  id, a dispute id, a resolution; \<open>tag\<close> only injects it into the one payload type.
\<close>

datatype payload = AgreementId string | DisputeId string | Resolution VoteChoice

datatype mutating_call =
    CreateAgreement CreateAgreementParams
  | CompleteMilestone string int
  | ApproveAndRelease string int
  | RaiseDispute string int
  | ResolveDispute string int bool
  | Register RegisterProfessionalParams
  | IncreaseStake string
  | SubmitReview SubmitReviewParams
  | WithdrawStake
  | RegisterArbitrator string
  | IncreaseArbitratorStake string
  | CreateDispute CreateDisputeParams
  | StartVoting string
  | Vote VoteParams
  | FinalizeDispute string
  | AppealDispute string

definition tag :: "('a \<Rightarrow> payload) \<Rightarrow> 'a ContractResult \<times> 'w \<Rightarrow> payload ContractResult \<times> 'w" where
  "tag f r =
     (\<lparr>success = success (fst r), data = map_option f (data (fst r)), error = error (fst r),
       gas_consumed = gas_consumed (fst r), storage_deposit = storage_deposit (fst r)\<rparr>,
      snd r)"

fun perform ::
  "mutating_call \<Rightarrow> ('k, 'c, 'x) contract_wrapper \<Rightarrow> int option \<Rightarrow>
     payload ContractResult \<times> ('k, 'c, 'x) contract_wrapper" where
  "perform (CreateAgreement p) self g = tag AgreementId (create_agreement self p g)"
| "perform (CompleteMilestone a i) self g = complete_milestone self a i g"
| "perform (ApproveAndRelease a i) self g = approve_and_release self a i g"
| "perform (RaiseDispute a i) self g = raise_dispute self a i g"
| "perform (ResolveDispute a i b) self g = resolve_dispute self a i b g"
| "perform (Register p) self g = register self p g"
| "perform (IncreaseStake a) self g = increase_stake self a g"
| "perform (SubmitReview p) self g = submit_review self p g"
| "perform WithdrawStake self g = withdraw_stake self g"
| "perform (RegisterArbitrator a) self g = register_arbitrator self a g"
| "perform (IncreaseArbitratorStake a) self g = increase_arbitrator_stake self a g"
| "perform (CreateDispute p) self g = tag DisputeId (create_dispute self p g)"
| "perform (StartVoting d) self g = start_voting self d g"
| "perform (Vote p) self g = vote self p g"
| "perform (FinalizeDispute d) self g = tag Resolution (finalize_dispute self d g)"
| "perform (AppealDispute d) self g = appeal_dispute self d g"

section \<open>Concrete inputs\<close>

text \<open>
  A node that accepts every call (each transaction is included and succeeds, with no
  event in its receipt; the account queried holds 1500 free and 500 reserved), a node
  on which every call raises, and wrappers and clients on them (one wrapper without a
  contract address, one without a keypair).
\<close>

definition example_node :: "(nat, nat, nat) SubstrateInterface" where
  "example_node =
     \<lparr>compose_call = (\<lambda>p. Inr 0),
      create_signed_extrinsic = (\<lambda>c k. Inr 0),
      submit_extrinsic = (\<lambda>x. Inr \<lparr>is_success = True, triggered_events = []\<rparr>),
      query = (\<lambda>m st keys.
         if m = ''System'' then Inr (QAccount [(''free'', 1500), (''reserved'', 500)])
         else Inr QNone),
      get_block_header = Inr [(''header'', [(''number'', PyInt 42)])],
      calls = []\<rparr>"

definition failing_node :: "(nat, nat, nat) SubstrateInterface" where
  "failing_node =
     \<lparr>compose_call = (\<lambda>p. Inl (LibraryError ''connection lost'')),
      create_signed_extrinsic = (\<lambda>c k. Inl (LibraryError ''connection lost'')),
      submit_extrinsic = (\<lambda>x. Inl (LibraryError ''connection lost'')),
      query = (\<lambda>m st keys. Inl (LibraryError ''connection lost'')),
      get_block_header = Inl (LibraryError ''connection lost''),
      calls = []\<rparr>"

definition example_wrapper :: "(nat, nat, nat) contract_wrapper" where
  "example_wrapper = wrapper_init example_node (Some ''5Contract'') (Some 1)"

definition example_contracts :: "(nat, nat, nat) GlinContracts" where
  "example_contracts =
     GlinContracts_init example_node (Some 1) (Some ''5Escrow'') (Some ''5Registry'') (Some ''5Arbitration'')"

definition failing_contracts :: "(nat, nat, nat) GlinContracts" where
  "failing_contracts =
     GlinContracts_init failing_node (Some 1) (Some ''5Escrow'') (Some ''5Registry'') (Some ''5Arbitration'')"

definition example_client :: "(nat, nat, nat) GlinClient" where
  "example_client = \<lparr>rpc_url = ''wss://rpc.glin.ai'', substrate = Some example_node\<rparr>"

definition failing_client :: "(nat, nat, nat) GlinClient" where
  "failing_client = \<lparr>rpc_url = ''wss://rpc.glin.ai'', substrate = Some failing_node\<rparr>"

text \<open>The library constructor when no node can be reached: it raises for every url.\<close>

definition unreachable :: "string \<Rightarrow> exn + (nat, nat, nat) SubstrateInterface" where
  "unreachable url = Inl (LibraryError ''no route to host'')"

text \<open>A client that has not connected yet.\<close>

definition disconnected_client :: "(nat, nat, nat) GlinClient" where
  "disconnected_client = \<lparr>rpc_url = ''wss://rpc.glin.ai'', substrate = None\<rparr>"

definition example_agreement :: CreateAgreementParams where
  "example_agreement =
     \<lparr>provider = ''5Provider'', milestone_descriptions = [''Design''],
      milestone_amounts = [''1000''], milestone_deadlines = [1234567890],
      dispute_timeout = 1234567890, oracle' = None, value' = ''1000''\<rparr>"

definition example_review :: "int \<Rightarrow> SubmitReviewParams" where
  "example_review r = \<lparr>professional = ''5Prof'', rating = r, comment = ''Great''\<rparr>"

definition no_address_wrapper :: "(nat, nat, nat) contract_wrapper" where
  "no_address_wrapper = wrapper_init example_node None (Some 1)"

definition no_keypair_wrapper :: "(nat, nat, nat) contract_wrapper" where
  "no_keypair_wrapper = wrapper_init example_node (Some ''5Contract'') None"

definition failing_wrapper :: "(nat, nat, nat) contract_wrapper" where
  "failing_wrapper = wrapper_init failing_node (Some ''5Contract'') (Some 1)"

section \<open>Decimal strings\<close>

text \<open>
  A decimal string: one or more digits, after an optional minus sign. It has no point,
  no exponent and no other character.
\<close>

definition decimal_string :: "string \<Rightarrow> bool" where
  "decimal_string s =
     (case s of
        [] \<Rightarrow> False
      | c # cs \<Rightarrow> if c = CHR ''-'' then cs \<noteq> [] \<and> list_all is_digit cs else list_all is_digit s)"

section \<open>Lemmas on the conversions\<close>

text \<open>
  \<open>int()\<close> reads back what \<open>str()\<close> writes: the decimal rendering of an integer denotes
  that integer exactly.
\<close>

lemma digit_char_is_digit: "(n::nat) < 10 \<Longrightarrow> is_digit (char_of (48 + n))"
  by (simp add: is_digit_def)

lemma digit_char_val: "(n::nat) < 10 \<Longrightarrow> digit_val (char_of (48 + n)) = n"
  by (simp add: digit_val_def)

lemma digit_not_space: "is_digit c \<Longrightarrow> \<not> is_space c"
  by (auto simp: is_digit_def is_space_def)

lemma nat_digits_digits: "\<forall>c \<in> set (nat_digits n). is_digit c"
proof (induction n rule: nat_digits.induct)
  case (1 n)
  show ?case
  proof (cases "n < 10")
    case True
    then show ?thesis by (simp add: nat_digits.simps [of n] digit_char_is_digit)
  next
    case False
    then have "\<forall>c \<in> set (nat_digits (n div 10)). is_digit c" using 1 by simp
    moreover have "is_digit (char_of (48 + n mod 10))" by (rule digit_char_is_digit) simp
    ultimately show ?thesis using False by (simp add: nat_digits.simps [of n])
  qed
qed

lemma nat_digits_nonempty: "nat_digits n \<noteq> []"
  by (cases "n < 10") (simp_all add: nat_digits.simps [of n])

lemma parse_digits_snoc:
  "ds \<noteq> [] \<Longrightarrow> \<forall>x \<in> set ds. is_digit x \<Longrightarrow> is_digit c \<Longrightarrow>
   parse_digits acc (ds @ [c]) = map_option (\<lambda>v. 10 * v + digit_val c) (parse_digits acc ds)"
proof (induction acc ds rule: parse_digits.induct)
  case (1 acc)
  then show ?case by simp
next
  case (2 acc d)
  then show ?case by simp
next
  case (3 acc a b cs)
  then show ?case by simp
qed

lemma parse_digits_nat_digits: "parse_digits 0 (nat_digits n) = Some n"
proof (induction n rule: nat_digits.induct)
  case (1 n)
  show ?case
  proof (cases "n < 10")
    case True
    then show ?thesis by (simp add: nat_digits.simps [of n] digit_char_is_digit digit_char_val)
  next
    case False
    have d: "is_digit (char_of (48 + n mod 10))" by (rule digit_char_is_digit) simp
    have v: "digit_val (char_of (48 + n mod 10)) = n mod 10" by (rule digit_char_val) simp
    have "parse_digits 0 (nat_digits (n div 10) @ [char_of (48 + n mod 10)])
          = map_option (\<lambda>v. 10 * v + digit_val (char_of (48 + n mod 10))) (parse_digits 0 (nat_digits (n div 10)))"
      by (rule parse_digits_snoc [OF nat_digits_nonempty nat_digits_digits d])
    also have "\<dots> = Some (10 * (n div 10) + n mod 10)" using 1 False v by simp
    finally show ?thesis using False by (simp add: nat_digits.simps [of n])
  qed
qed

lemma parse_nat_nat_digits: "parse_nat (nat_digits n) = Some n"
proof -
  obtain c cs where e: "nat_digits n = c # cs" using nat_digits_nonempty [of n] by (cases "nat_digits n") auto
  then have "is_digit c" using nat_digits_digits [of n] by simp
  then show ?thesis using e parse_digits_nat_digits [of n] by (simp add: parse_nat_def)
qed

lemma strip_no_space: "s \<noteq> [] \<Longrightarrow> \<not> is_space (hd s) \<Longrightarrow> \<not> is_space (last s) \<Longrightarrow> strip s = s"
proof -
  assume a: "s \<noteq> []" "\<not> is_space (hd s)" "\<not> is_space (last s)"
  have 1: "dropWhile is_space s = s" using a by (simp add: dropWhile_eq_self_iff)
  have "hd (rev s) = last s" using a by (simp add: hd_rev)
  then have 2: "dropWhile is_space (rev s) = rev s" using a by (simp add: dropWhile_eq_self_iff)
  show ?thesis by (simp add: strip_def 1 2)
qed

lemma strip_nat_digits: "strip (nat_digits n) = nat_digits n"
proof -
  have ne: "nat_digits n \<noteq> []" by (rule nat_digits_nonempty)
  then have "hd (nat_digits n) \<in> set (nat_digits n)" "last (nat_digits n) \<in> set (nat_digits n)" by simp_all
  then have "\<not> is_space (hd (nat_digits n))" "\<not> is_space (last (nat_digits n))"
    using nat_digits_digits [of n] digit_not_space by blast+
  then show ?thesis using ne by (rule_tac strip_no_space)
qed

lemma py_int_py_str_int: "py_int (py_str_int i) = Inr i"
proof (cases "i < 0")
  case True
  let ?ds = "nat_digits (nat (- i))"
  have ne: "?ds \<noteq> []" by (rule nat_digits_nonempty)
  then have "last ?ds \<in> set ?ds" by simp
  then have "\<not> is_space (last ?ds)" using nat_digits_digits digit_not_space by blast
  moreover have "\<not> is_space CHR ''-''" by (simp add: is_space_def)
  ultimately have "strip (CHR ''-'' # ?ds) = CHR ''-'' # ?ds" using ne by (intro strip_no_space) simp_all
  then show ?thesis using True by (simp add: py_int_def py_str_int_def parse_nat_nat_digits)
next
  case False
  obtain c cs where e: "nat_digits (nat i) = c # cs"
    using nat_digits_nonempty [of "nat i"] by (cases "nat_digits (nat i)") auto
  then have "is_digit c" using nat_digits_digits [of "nat i"] by simp
  then have "c \<noteq> CHR ''-''" "c \<noteq> CHR ''+''" by (auto simp: is_digit_def)
  moreover have "parse_nat (c # cs) = Some (nat i)" using parse_nat_nat_digits [of "nat i"] e by simp
  ultimately show ?thesis using False e strip_nat_digits [of "nat i"]
    by (simp add: py_int_def py_str_int_def)
qed

text \<open>\<open>str()\<close> of an integer is a decimal string.\<close>

lemma decimal_string_py_str_int: "decimal_string (py_str_int i)"
proof (cases "i < 0")
  case True
  have "list_all is_digit (nat_digits (nat (- i)))"
    using nat_digits_digits [of "nat (- i)"] by (simp add: list_all_iff)
  then show ?thesis using True nat_digits_nonempty [of "nat (- i)"]
    by (simp add: decimal_string_def py_str_int_def)
next
  case False
  obtain c cs where e: "nat_digits (nat i) = c # cs"
    using nat_digits_nonempty [of "nat i"] by (cases "nat_digits (nat i)") auto
  have all: "list_all is_digit (nat_digits (nat i))"
    using nat_digits_digits [of "nat i"] by (simp add: list_all_iff)
  then have "is_digit c" using e by simp
  then have "c \<noteq> CHR ''-''" by (auto simp: is_digit_def)
  then show ?thesis using False e all by (simp add: decimal_string_def py_str_int_def)
qed

section \<open>Lemmas on the wrappers\<close>

text \<open>The first library call of a submission is \<open>compose_call\<close>, and it is recorded.\<close>

lemma submit_call_calls:
  "\<exists>rest. calls (snd (submit_call s kp p)) = calls s @ ComposeCall p # rest"
  by (auto simp: submit_call_def called_def Let_def split: sum.splits)

text \<open>Whatever the indices, the loop of \<open>get_all_reviews\<close> appends no review and prints nothing.\<close>

lemma collect_reviews_adds_nothing:
  "collect_reviews self prof idxs (reviews, out) = (reviews, out)"
  by (induction idxs arbitrary: reviews out) (simp_all add: get_review_def)

text \<open>
  The sixteen mutating methods: the two checks every one of them starts with, and the
  error every failed result carries.
\<close>

lemmas mutating_defs =
  create_agreement_def complete_milestone_def approve_and_release_def raise_dispute_def
  resolve_dispute_def register_def increase_stake_def submit_review_def withdraw_stake_def
  register_arbitrator_def increase_arbitrator_stake_def create_dispute_def start_voting_def
  vote_def finalize_dispute_def appeal_dispute_def

lemma perform_no_address:
  "\<not> truthy_str (contract_address self) \<Longrightarrow>
   perform c self g = (mk_ContractResult False None (Some (Msg ''Contract not initialized'')), self)"
  by (cases c) (simp_all add: mutating_defs tag_def mk_ContractResult_def)

lemma perform_no_keypair:
  "truthy_str (contract_address self) \<Longrightarrow> \<not> truthy_obj (contract_wrapper.keypair self) \<Longrightarrow>
   perform c self g = (mk_ContractResult False None (Some (Msg ''Keypair not set'')), self)"
  by (cases c) (simp_all add: mutating_defs tag_def mk_ContractResult_def)

lemma perform_failed_has_error:
  "\<not> success (fst (perform c self g)) \<Longrightarrow> error (fst (perform c self g)) \<noteq> None"
  by (cases c)
     (auto simp: mutating_defs tag_def mk_ContractResult_def extract_agreement_id_def
        extract_dispute_id_def extract_resolution_def
        split: sum.splits prod.splits if_splits)

section \<open>Lemmas on the clients\<close>

text \<open>
  On a client that is connected, or that connects, each query method is the conversion
  of what the node answers.
\<close>

lemma get_balance_connected:
  assumes "ensure_connected new cl = Inr cl1"
    and "GlinClient.substrate cl1 = Some s"
  shows "fst (get_balance new cl address)
     = bind_exn (query s ''System'' ''Account'' [address])
         (\<lambda>v. bind_exn (value_data v)
           (\<lambda>d. bind_exn (getitem d ''free'')
             (\<lambda>f. bind_exn (getitem d ''reserved'')
               (\<lambda>r. Inr \<lparr>free = py_str_int f,
                         reserved = py_str_int r,
                         frozen = py_str_int (dict_get d ''frozen'' (dict_get d ''miscFrozen'' 0)),
                         total = py_str_int (f + r)\<rparr>))))"
  using assms by (simp add: get_balance_def client_query_def)

lemma get_task_connected:
  assumes "ensure_connected new cl = Inr cl1" and "GlinClient.substrate cl1 = Some s"
  shows "fst (get_task new cl task_id)
     = (case bind_exn (query s ''TaskRegistry'' ''Tasks'' [task_id]) (task_of task_id) of
          Inr t \<Rightarrow> Inr t | Inl e \<Rightarrow> Inr None)"
  using assms by (simp add: get_task_def client_query_def split: sum.splits)

lemma get_provider_connected:
  assumes "ensure_connected new cl = Inr cl1" and "GlinClient.substrate cl1 = Some s"
  shows "fst (get_provider new cl address)
     = (case bind_exn (query s ''ProviderStaking'' ''Providers'' [address]) (provider_of address) of
          Inr t \<Rightarrow> Inr t | Inl e \<Rightarrow> Inr None)"
  using assms by (simp add: get_provider_def client_query_def split: sum.splits)

lemma get_block_number_connected:
  assumes "ensure_connected new cl = Inr cl1" and "GlinClient.substrate cl1 = Some s"
  shows "fst (get_block_number new cl)
     = bind_exn (get_block_header s) (\<lambda>hd. bind_exn (getitem hd ''header'') (\<lambda>h. getitem h ''number''))"
  using assms by (simp add: get_block_number_def)

section \<open>The claims\<close>

text \<open>
  Claim C1. With the contract address and the keypair set, \<open>RegistryContract.submit_review\<close>
  answers a rating below 1 or above 5 with the failed result
  \<open>ContractResult(success=False, error="Rating must be between 1 and 5")\<close> and leaves the
  substrate object untouched, so no library call was made. For a rating from 1 to 5 (1 and 5
  included) the validation passes: the error of the result is not the validation error,
  and the method went on to \<open>compose_call\<close> (the call data is what \<open>_encode_call\<close> gives for
  the review, the empty byte string).
\<close>

theorem submit_review_rating_validation:
  fixes self :: "('k, 'c, 'x) contract_wrapper"
  assumes "truthy_str (contract_address self)" and "truthy_obj (contract_wrapper.keypair self)"
  shows "(SubmitReviewParams.rating params < 1 \<or> SubmitReviewParams.rating params > 5 \<longrightarrow>
            (submit_review self params gas_limit :: 'd ContractResult \<times> ('k, 'c, 'x) contract_wrapper)
              = (mk_ContractResult False None (Some (Msg ''Rating must be between 1 and 5'')), self))
       \<and> (1 \<le> SubmitReviewParams.rating params \<and> SubmitReviewParams.rating params \<le> 5 \<longrightarrow>
            error (fst (submit_review self params gas_limit :: 'd ContractResult \<times> ('k, 'c, 'x) contract_wrapper))
              \<noteq> Some (Msg ''Rating must be between 1 and 5'')
            \<and> (\<exists>rest. calls (contract_wrapper.substrate
                         (snd (submit_review self params gas_limit :: 'd ContractResult \<times> ('k, 'c, 'x) contract_wrapper)))
                  = calls (contract_wrapper.substrate self)
                    @ ComposeCall
                        \<lparr>call_module = ''Contracts'', call_function = ''call'',
                         dest = contract_address self, call_value = 0,
                         ref_time = py_or gas_limit 50000000000, proof_size = 50000,
                         storage_deposit_limit = None, call_data = []\<rparr> # rest))"
proof (intro conjI impI)
  assume "SubmitReviewParams.rating params < 1 \<or> SubmitReviewParams.rating params > 5"
  then show "(submit_review self params gas_limit :: 'd ContractResult \<times> ('k, 'c, 'x) contract_wrapper)
      = (mk_ContractResult False None (Some (Msg ''Rating must be between 1 and 5'')), self)"
    using assms by (simp add: submit_review_def)
next
  assume ok: "1 \<le> SubmitReviewParams.rating params \<and> SubmitReviewParams.rating params \<le> 5"
  then show "error (fst (submit_review self params gas_limit :: 'd ContractResult \<times> ('k, 'c, 'x) contract_wrapper))
      \<noteq> Some (Msg ''Rating must be between 1 and 5'')"
    using assms
    by (auto simp: submit_review_def mk_ContractResult_def split: sum.splits prod.splits)
next
  let ?p = "\<lparr>call_module = ''Contracts'', call_function = ''call'',
             dest = contract_address self, call_value = 0,
             ref_time = py_or gas_limit 50000000000, proof_size = 50000,
             storage_deposit_limit = None, call_data = []\<rparr>"
  assume ok: "1 \<le> SubmitReviewParams.rating params \<and> SubmitReviewParams.rating params \<le> 5"
  then have "contract_wrapper.substrate
       (snd (submit_review self params gas_limit :: 'd ContractResult \<times> ('k, 'c, 'x) contract_wrapper))
     = snd (submit_call (contract_wrapper.substrate self) (contract_wrapper.keypair self) ?p)"
    using assms
    by (auto simp: submit_review_def registry_encode_call_def split: sum.splits prod.splits)
  then show "\<exists>rest. calls (contract_wrapper.substrate
        (snd (submit_review self params gas_limit :: 'd ContractResult \<times> ('k, 'c, 'x) contract_wrapper)))
      = calls (contract_wrapper.substrate self) @ ComposeCall ?p # rest"
    using submit_call_calls [of "contract_wrapper.substrate self" "contract_wrapper.keypair self" ?p]
    by simp
qed

theorem submit_review_rating_validation_witness:
  "truthy_str (contract_address example_wrapper)
   \<and> truthy_obj (contract_wrapper.keypair example_wrapper)
   \<and> (submit_review example_wrapper (example_review 0) None :: unit ContractResult \<times> (nat, nat, nat) contract_wrapper)
       = (mk_ContractResult False None (Some (Msg ''Rating must be between 1 and 5'')), example_wrapper)
   \<and> (submit_review example_wrapper (example_review 6) None :: unit ContractResult \<times> (nat, nat, nat) contract_wrapper)
       = (mk_ContractResult False None (Some (Msg ''Rating must be between 1 and 5'')), example_wrapper)
   \<and> error (fst (submit_review example_wrapper (example_review 1) None :: unit ContractResult \<times> (nat, nat, nat) contract_wrapper))
       \<noteq> Some (Msg ''Rating must be between 1 and 5'')
   \<and> error (fst (submit_review example_wrapper (example_review 5) None :: unit ContractResult \<times> (nat, nat, nat) contract_wrapper))
       \<noteq> Some (Msg ''Rating must be between 1 and 5'')"
proof -
  have a: "truthy_str (contract_address example_wrapper)"
    by (simp add: example_wrapper_def wrapper_init_def load_contract_def truthy_str_def)
  have k: "truthy_obj (contract_wrapper.keypair example_wrapper)"
    by (simp add: example_wrapper_def wrapper_init_def load_contract_def truthy_str_def truthy_obj_def)
  have r: "SubmitReviewParams.rating (example_review 0) = 0" "SubmitReviewParams.rating (example_review 6) = 6"
    "SubmitReviewParams.rating (example_review 1) = 1" "SubmitReviewParams.rating (example_review 5) = 5"
    by (simp_all add: example_review_def)
  show ?thesis
    using a k
      submit_review_rating_validation [OF a k, of "example_review 0" None, where ?'d = unit]
      submit_review_rating_validation [OF a k, of "example_review 6" None, where ?'d = unit]
      submit_review_rating_validation [OF a k, of "example_review 1" None, where ?'d = unit]
      submit_review_rating_validation [OF a k, of "example_review 5" None, where ?'d = unit]
    by (simp add: r)
qed

text \<open>
  Claim C3. For every method name and every argument tuple, \<open>_encode_call\<close> of the escrow,
  the registry and the arbitration wrapper returns the empty byte string.
\<close>

theorem encode_call_empty:
  "escrow_encode_call self m args = []
   \<and> registry_encode_call self m args = []
   \<and> arbitration_encode_call self m args = []"
  by (simp add: escrow_encode_call_def registry_encode_call_def arbitration_encode_call_def)

text \<open>
  Claim C4. Every storage getter of the contract wrappers returns its fixed default, for
  every input and every state of the wrapper and of the node behind it, and prints
  nothing: \<open>None\<close> for \<open>get_profile\<close>, \<open>get_review\<close>, \<open>get_agreement\<close>, \<open>get_milestone\<close>,
  \<open>get_dispute\<close>, \<open>get_arbitrator\<close> and \<open>get_vote\<close>; 0 for \<open>get_review_count\<close> and
  \<open>get_milestone_count\<close>; \<open>"0"\<close> for \<open>get_min_stake\<close>; \<open>False\<close> for \<open>is_active_professional\<close>
  and \<open>is_active_arbitrator\<close>.
\<close>

theorem storage_getters_default:
  "get_profile self acct = (None, [])
   \<and> get_review self prof idx = (None, [])
   \<and> get_agreement self aid = (None, [])
   \<and> get_milestone self aid idx = (None, [])
   \<and> get_dispute self did = (None, [])
   \<and> get_arbitrator self acct = (None, [])
   \<and> get_vote self did arb = (None, [])
   \<and> get_review_count self prof = (0, [])
   \<and> get_milestone_count self aid = (0, [])
   \<and> get_min_stake self r = (''0'', [])
   \<and> is_active_professional self acct = (False, [])
   \<and> is_active_arbitrator self acct = (False, [])"
  by (simp add: get_profile_def get_review_def get_agreement_def get_milestone_def
      get_dispute_def get_arbitrator_def get_vote_def get_review_count_def
      get_milestone_count_def get_min_stake_def is_active_professional_def
      is_active_arbitrator_def)

text \<open>
  Claim C5. Call-data encoding is deterministic: two invocations of \<open>_encode_call\<close> with the
  same method name and the same arguments give the same bytes, whatever the state of the
  wrapper at each invocation (\<open>self\<close> at the first, \<open>self'\<close> at the second).
\<close>

theorem encode_call_deterministic:
  "escrow_encode_call self m args = escrow_encode_call self' m args
   \<and> registry_encode_call self m args = registry_encode_call self' m args
   \<and> arbitration_encode_call self m args = arbitration_encode_call self' m args"
  by (simp add: escrow_encode_call_def registry_encode_call_def arbitration_encode_call_def)

text \<open>
  Claim C7. \<open>GlinContracts.set_keypair(k)\<close> sets the keypair of the client and of its three
  wrappers to \<open>k\<close> (a keypair, or \<open>None\<close> as in the repository's own test) and changes
  nothing else: the client's substrate, and each wrapper's
  contract address, substrate and \<open>contract\<close> attribute are what they were.
\<close>

theorem set_keypair_frame:
  "GlinContracts.keypair (GlinContracts_set_keypair gc k) = k
   \<and> contract_wrapper.keypair (escrow (GlinContracts_set_keypair gc k)) = k
   \<and> contract_wrapper.keypair (registry (GlinContracts_set_keypair gc k)) = k
   \<and> contract_wrapper.keypair (arbitration (GlinContracts_set_keypair gc k)) = k
   \<and> GlinContracts.substrate (GlinContracts_set_keypair gc k) = GlinContracts.substrate gc
   \<and> GlinContracts.more (GlinContracts_set_keypair gc k) = GlinContracts.more gc
   \<and> escrow (GlinContracts_set_keypair gc k) = (escrow gc)\<lparr>contract_wrapper.keypair := k\<rparr>
   \<and> registry (GlinContracts_set_keypair gc k) = (registry gc)\<lparr>contract_wrapper.keypair := k\<rparr>
   \<and> arbitration (GlinContracts_set_keypair gc k) = (arbitration gc)\<lparr>contract_wrapper.keypair := k\<rparr>
   \<and> contract_address (escrow (GlinContracts_set_keypair gc k)) = contract_address (escrow gc)
   \<and> contract_address (registry (GlinContracts_set_keypair gc k)) = contract_address (registry gc)
   \<and> contract_address (arbitration (GlinContracts_set_keypair gc k)) = contract_address (arbitration gc)
   \<and> contract_wrapper.substrate (escrow (GlinContracts_set_keypair gc k)) = contract_wrapper.substrate (escrow gc)
   \<and> contract_wrapper.substrate (registry (GlinContracts_set_keypair gc k)) = contract_wrapper.substrate (registry gc)
   \<and> contract_wrapper.substrate (arbitration (GlinContracts_set_keypair gc k)) = contract_wrapper.substrate (arbitration gc)
   \<and> contract (escrow (GlinContracts_set_keypair gc k)) = contract (escrow gc)
   \<and> contract (registry (GlinContracts_set_keypair gc k)) = contract (registry gc)
   \<and> contract (arbitration (GlinContracts_set_keypair gc k)) = contract (arbitration gc)"
  by (simp add: GlinContracts_set_keypair_def set_keypair_def)

text \<open>
  Claim C10. For every professional address and every wrapper, \<open>get_all_reviews\<close> returns
  the empty list (and prints nothing): \<open>get_review_count\<close> is 0, so the loop has no index.
\<close>

theorem get_all_reviews_empty: "get_all_reviews self prof = ([], [])"
  by (simp add: get_all_reviews_def get_review_count_def py_range_def)

text \<open>
  Claim C2 (the code does not do what the claim says). The claim asks that a successful
  \<open>create_agreement\<close> whose receipt yields no agreement identifier be reported as a partial
  success. In the code \<open>_extract_agreement_id\<close> returns \<open>None\<close> for every receipt, and
  \<open>create_agreement\<close> has no partial result: its payload is \<open>None\<close> on every input, and on a
  node that includes the transaction with no event in the receipt it returns
  \<open>ContractResult(success=True, data=None, error=None)\<close>, a full success with no identifier.
\<close>

theorem create_agreement_reports_success_without_id:
  "data (fst (create_agreement self params gas_limit)) = None
   \<and> fst (create_agreement example_wrapper example_agreement None) = mk_ContractResult True None None"
proof
  show "data (fst (create_agreement self params gas_limit)) = None"
    by (auto simp: create_agreement_def mk_ContractResult_def extract_agreement_id_def
        split: sum.splits prod.splits)
next
  have v: "py_int (value' example_agreement) = Inr 1000"
    unfolding example_agreement_def by code_simp
  have a: "truthy_str (contract_address example_wrapper)"
    by (simp add: example_wrapper_def wrapper_init_def load_contract_def truthy_str_def)
  have k: "truthy_obj (contract_wrapper.keypair example_wrapper)"
    by (simp add: example_wrapper_def wrapper_init_def load_contract_def truthy_str_def truthy_obj_def)
  have n: "contract_wrapper.substrate example_wrapper = example_node"
    by (simp add: example_wrapper_def wrapper_init_def load_contract_def truthy_str_def)
  have s: "fst (submit_call example_node kp p) = Inr \<lparr>is_success = True, triggered_events = []\<rparr>" for kp p
    by (simp add: submit_call_def example_node_def Let_def)
  show "fst (create_agreement example_wrapper example_agreement None) = mk_ContractResult True None None"
    by (simp add: create_agreement_def a k n v s extract_agreement_id_def split_beta)
qed

text \<open>
  Claim C6. Every mutating operation of the three wrappers returns a ContractResult
  (\<open>perform\<close> is total: no exception leaves a method). When the contract address is unset
  (\<open>None\<close> or empty) the result is \<open>ContractResult(success=False, error="Contract not
  initialized")\<close>; when the address is set and the keypair is unset it is
  \<open>ContractResult(success=False, error="Keypair not set")\<close>; in both cases the wrapper and
  its substrate object are returned untouched, so nothing was submitted. Whenever
  \<open>success\<close> is false, \<open>error\<close> is not \<open>None\<close>.
\<close>

theorem mutating_operations_contract_result:
  "(\<not> truthy_str (contract_address self) \<longrightarrow>
      perform c self g = (mk_ContractResult False None (Some (Msg ''Contract not initialized'')), self))
   \<and> (truthy_str (contract_address self) \<and> \<not> truthy_obj (contract_wrapper.keypair self) \<longrightarrow>
      perform c self g = (mk_ContractResult False None (Some (Msg ''Keypair not set'')), self))
   \<and> (\<not> success (fst (perform c self g)) \<longrightarrow> error (fst (perform c self g)) \<noteq> None)"
  using perform_no_address [of self c g] perform_no_keypair [of self c g]
    perform_failed_has_error [of c self g]
  by blast

theorem mutating_operations_contract_result_witness:
  "\<not> truthy_str (contract_address no_address_wrapper)
   \<and> perform WithdrawStake no_address_wrapper None
        = (mk_ContractResult False None (Some (Msg ''Contract not initialized'')), no_address_wrapper)
   \<and> truthy_str (contract_address no_keypair_wrapper)
   \<and> \<not> truthy_obj (contract_wrapper.keypair no_keypair_wrapper)
   \<and> perform (CreateAgreement example_agreement) no_keypair_wrapper None
        = (mk_ContractResult False None (Some (Msg ''Keypair not set'')), no_keypair_wrapper)
   \<and> \<not> success (fst (perform (SubmitReview (example_review 5)) failing_wrapper None))
   \<and> error (fst (perform (SubmitReview (example_review 5)) failing_wrapper None)) \<noteq> None"
proof -
  have a: "\<not> truthy_str (contract_address no_address_wrapper)"
    by (simp add: no_address_wrapper_def wrapper_init_def truthy_str_def)
  have k: "truthy_str (contract_address no_keypair_wrapper) \<and> \<not> truthy_obj (contract_wrapper.keypair no_keypair_wrapper)"
    by (simp add: no_keypair_wrapper_def wrapper_init_def load_contract_def truthy_str_def truthy_obj_def)
  have fa: "truthy_str (contract_address failing_wrapper)"
    by (simp add: failing_wrapper_def wrapper_init_def load_contract_def truthy_str_def)
  have fk: "truthy_obj (contract_wrapper.keypair failing_wrapper)"
    by (simp add: failing_wrapper_def wrapper_init_def load_contract_def truthy_str_def truthy_obj_def)
  have fn: "contract_wrapper.substrate failing_wrapper = failing_node"
    by (simp add: failing_wrapper_def wrapper_init_def load_contract_def truthy_str_def)
  have fs: "fst (submit_call failing_node kp p) = Inl (LibraryError ''connection lost'')" for kp p
    by (simp add: submit_call_def failing_node_def Let_def)
  have f: "\<not> success (fst (perform (SubmitReview (example_review 5)) failing_wrapper None))"
    by (simp add: submit_review_def fa fk fn fs example_review_def mk_ContractResult_def split_beta)
  show ?thesis
    using a k f
      mutating_operations_contract_result [of no_address_wrapper WithdrawStake None]
      mutating_operations_contract_result [of no_keypair_wrapper "CreateAgreement example_agreement" None]
      mutating_operations_contract_result [of failing_wrapper "SubmitReview (example_review 5)" None]
    by simp
qed




text \<open>
  Claim C9. When the \<open>System.Account\<close> query answers an account record with integer \<open>free\<close>
  and \<open>reserved\<close> balances, \<open>GlinClient.get_balance\<close> returns a Balance whose \<open>free\<close>,
  \<open>reserved\<close> and \<open>total\<close> are the decimal renderings of \<open>free\<close>, \<open>reserved\<close> and
  \<open>free + reserved\<close>, the sum taken over the unbounded integers: read back with \<open>int()\<close>, \<open>total\<close>
  is exactly \<open>free + reserved\<close>. All four fields are decimal strings (digits after an
  optional minus sign).
\<close>

theorem get_balance_total:
  assumes "ensure_connected new cl = Inr cl1"
    and "GlinClient.substrate cl1 = Some s"
    and "query s ''System'' ''Account'' [address] = Inr (QAccount d)"
    and "map_of d ''free'' = Some f"
    and "map_of d ''reserved'' = Some r"
  shows "\<exists>b. fst (get_balance new cl address) = Inr b
     \<and> free b = py_str_int f
     \<and> reserved b = py_str_int r
     \<and> frozen b = py_str_int (dict_get d ''frozen'' (dict_get d ''miscFrozen'' 0))
     \<and> total b = py_str_int (f + r)
     \<and> py_int (free b) = Inr f
     \<and> py_int (reserved b) = Inr r
     \<and> py_int (total b) = Inr (f + r)
     \<and> decimal_string (free b) \<and> decimal_string (reserved b)
     \<and> decimal_string (frozen b) \<and> decimal_string (total b)"
  using assms
  by (simp add: get_balance_connected [OF assms(1,2)] bind_exn_def getitem_def
      py_int_py_str_int decimal_string_py_str_int)

theorem get_balance_total_witness:
  "ensure_connected unreachable example_client = Inr example_client
   \<and> GlinClient.substrate example_client = Some example_node
   \<and> query example_node ''System'' ''Account'' [''5Alice'']
        = Inr (QAccount [(''free'', 1500), (''reserved'', 500)])
   \<and> (\<exists>b. fst (get_balance unreachable example_client ''5Alice'') = Inr b
        \<and> free b = ''1500'' \<and> reserved b = ''500'' \<and> frozen b = ''0''
        \<and> total b = ''2000'' \<and> py_int (total b) = Inr 2000)"
proof -
  have c: "ensure_connected unreachable example_client = Inr example_client"
    by (simp add: ensure_connected_def example_client_def truthy_obj_def)
  have s: "GlinClient.substrate example_client = Some example_node"
    by (simp add: example_client_def)
  have q: "query example_node ''System'' ''Account'' [''5Alice'']
        = Inr (QAccount [(''free'', 1500), (''reserved'', 500)])"
    by (simp add: example_node_def)
  have f: "map_of [(''free'', 1500::int), (''reserved'', 500)] ''free'' = Some 1500" by simp
  have r: "map_of [(''free'', 1500::int), (''reserved'', 500)] ''reserved'' = Some 500" by simp
  have d: "py_str_int 1500 = ''1500''" "py_str_int 500 = ''500''" "py_str_int 2000 = ''2000''"
    "py_str_int 0 = ''0''"
    by code_simp+
  show ?thesis using c s q get_balance_total [OF c s q f r] by (auto simp: d dict_get_def)
qed

section \<open>Further properties\<close>

text \<open>
  Property X1. \<open>GlinContracts.get_contract_balance\<close> has no handler: when its query raises,
  the exception reaches the caller (the repository's test \<open>test_get_balance_handles_error\<close>
  expects \<open>"0"\<close> there). When the query answers an account record with an integer \<open>free\<close>
  balance, the result is its decimal rendering.
\<close>

theorem get_contract_balance_propagates:
  "(query (GlinContracts.substrate gc) ''System'' ''Account'' [address] = Inl e \<longrightarrow>
      fst (get_contract_balance gc address) = Inl e)
   \<and> (query (GlinContracts.substrate gc) ''System'' ''Account'' [address] = Inr (QAccount d)
        \<and> map_of d ''free'' = Some f \<longrightarrow>
      fst (get_contract_balance gc address) = Inr (py_str_int f))"
  by (simp add: get_contract_balance_def bind_exn_def getitem_def)

theorem get_contract_balance_propagates_witness:
  "query (GlinContracts.substrate failing_contracts) ''System'' ''Account'' [''5Alice'']
     = Inl (LibraryError ''connection lost'')
   \<and> fst (get_contract_balance failing_contracts ''5Alice'') = Inl (LibraryError ''connection lost'')
   \<and> query (GlinContracts.substrate example_contracts) ''System'' ''Account'' [''5Alice'']
     = Inr (QAccount [(''free'', 1500), (''reserved'', 500)])
   \<and> fst (get_contract_balance example_contracts ''5Alice'') = Inr ''1500''"
proof -
  have f: "query (GlinContracts.substrate failing_contracts) ''System'' ''Account'' [''5Alice'']
     = Inl (LibraryError ''connection lost'')"
    by (simp add: failing_contracts_def GlinContracts_init_def failing_node_def)
  have q: "query (GlinContracts.substrate example_contracts) ''System'' ''Account'' [''5Alice'']
     = Inr (QAccount [(''free'', 1500), (''reserved'', 500)])"
    by (simp add: example_contracts_def GlinContracts_init_def example_node_def)
  have d: "py_str_int 1500 = ''1500''" by code_simp
  show ?thesis
    using f q
      get_contract_balance_propagates [of failing_contracts "''5Alice''" "LibraryError ''connection lost''"]
      get_contract_balance_propagates [of example_contracts "''5Alice''" _
        "[(''free'', 1500), (''reserved'', 500)]" 1500]
    by (simp add: d)
qed

text \<open>
  Property X2. Like \<open>create_agreement\<close>, the two other methods that are documented to return
  a payload never return one: \<open>_extract_dispute_id\<close> and \<open>_extract_resolution\<close> return
  \<open>None\<close> for every receipt, so the \<open>data\<close> of \<open>create_dispute\<close> and of \<open>finalize_dispute\<close> is
  \<open>None\<close> on every input.
\<close>

theorem dispute_payloads_always_none:
  "data (fst (create_dispute self params gas_limit)) = None
   \<and> data (fst (finalize_dispute self did gas_limit)) = None"
  by (auto simp: create_dispute_def finalize_dispute_def mk_ContractResult_def
      extract_dispute_id_def extract_resolution_def split: sum.splits prod.splits)

end
